theory Spec2Isabelle
  imports Complex_Main "HOL-Library.Sublist"
begin

section \<open>Python values and the operations the handlers apply to them\<close>

text \<open>
  The handlers of \<^verbatim>\<open>src/app.py\<close> work on what \<^verbatim>\<open>request.get_json()\<close> and
  \<^verbatim>\<open>response.json()\<close> return: \<^verbatim>\<open>None\<close>, a bool, a number, a \<^verbatim>\<open>str\<close>, a list or
  a dict. A dict is an association list read with \<open>map_of\<close>. Strings are byte
  strings (UTF-8); the handlers only split them at the space character and
  concatenate them, which is the same on bytes and on code points. The float
  values \<^verbatim>\<open>nan\<close> and \<^verbatim>\<open>inf\<close> are not in the model.
\<close>

datatype json =
    JNull
  | JBool bool
  | JNum int
  | JFloat real
  | JStr string
  | JArr "json list"
  | JObj "(string \<times> json) list"

text \<open>
  Exceptions are values. \<open>str_exn\<close> is \<^verbatim>\<open>str(e)\<close>; the messages are those of
  CPython 3.11. \<open>UpstreamException\<close> is whatever a collaborator outside the
  source raises (a connection error of \<^verbatim>\<open>requests\<close>, a JSON decoding error).
\<close>

datatype exn =
    TypeError string
  | AttributeError string
  | ValueError string
  | OverflowError string
  | KeyError string
  | IndexError string
  | UpstreamException string

fun str_exn :: "exn \<Rightarrow> string" where
  "str_exn (TypeError m) = m"
| "str_exn (AttributeError m) = m"
| "str_exn (ValueError m) = m"
| "str_exn (OverflowError m) = m"
| "str_exn (KeyError m) = m"
| "str_exn (IndexError m) = m"
| "str_exn (UpstreamException m) = m"

fun type_name :: "json \<Rightarrow> string" where
  "type_name JNull = ''NoneType''"
| "type_name (JBool _) = ''bool''"
| "type_name (JNum _) = ''int''"
| "type_name (JFloat _) = ''float''"
| "type_name (JStr _) = ''str''"
| "type_name (JArr _) = ''list''"
| "type_name (JObj _) = ''dict''"

text \<open>
  A text between single quotes: \<^verbatim>\<open>'{field}'\<close> in an f-string, and \<^verbatim>\<open>repr\<close> of a
  string with no quote, backslash or control character in it.
\<close>

definition quoted :: "string \<Rightarrow> string" where
  "quoted s = CHR 0x27 # s @ [CHR 0x27]"

text \<open>Truth value testing: \<^verbatim>\<open>not v\<close>, \<^verbatim>\<open>a or b\<close>, \<^verbatim>\<open>all([...])\<close>.\<close>

fun truthy :: "json \<Rightarrow> bool" where
  "truthy JNull = False"
| "truthy (JBool b) = b"
| "truthy (JNum n) = (n \<noteq> 0)"
| "truthy (JFloat r) = (r \<noteq> 0)"
| "truthy (JStr s) = (s \<noteq> [])"
| "truthy (JArr xs) = (xs \<noteq> [])"
| "truthy (JObj kvs) = (kvs \<noteq> [])"

text \<open>
  \<^verbatim>\<open>key in data\<close> for a \<^verbatim>\<open>str\<close> key: key membership on a dict, element
  membership on a list, the substring test on a \<^verbatim>\<open>str\<close>, and a \<^verbatim>\<open>TypeError\<close>
  on everything else.
\<close>

fun py_contains :: "string \<Rightarrow> json \<Rightarrow> exn + bool" where
  "py_contains k (JObj kvs) = Inr (map_of kvs k \<noteq> None)"
| "py_contains k (JArr xs) = Inr (JStr k \<in> set xs)"
| "py_contains k (JStr s) = Inr (sublist k s)"
| "py_contains k v =
     Inl (TypeError (''argument of type '' @ quoted (type_name v) @ '' is not iterable''))"

text \<open>\<^verbatim>\<open>data[key]\<close> for a \<^verbatim>\<open>str\<close> key.\<close>

fun py_getitem :: "json \<Rightarrow> string \<Rightarrow> exn + json" where
  "py_getitem (JObj kvs) k =
     (case map_of kvs k of None \<Rightarrow> Inl (KeyError (quoted k)) | Some v \<Rightarrow> Inr v)"
| "py_getitem (JArr xs) k =
     Inl (TypeError ''list indices must be integers or slices, not str'')"
| "py_getitem (JStr s) k =
     Inl (TypeError (''string indices must be integers, not '' @ quoted ''str''))"
| "py_getitem v k =
     Inl (TypeError (quoted (type_name v) @ '' object is not subscriptable''))"

text \<open>The \<^verbatim>\<open>AttributeError\<close> of a method call on a value that has no such method.\<close>

definition no_attribute :: "json \<Rightarrow> string \<Rightarrow> exn" where
  "no_attribute v name =
     AttributeError (quoted (type_name v) @ '' object has no attribute '' @ quoted name)"

text \<open>\<^verbatim>\<open>d.get(key, default)\<close>: only a dict has the method.\<close>

fun py_get :: "json \<Rightarrow> string \<Rightarrow> json \<Rightarrow> exn + json" where
  "py_get (JObj kvs) k dflt = Inr (case map_of kvs k of None \<Rightarrow> dflt | Some v \<Rightarrow> v)"
| "py_get v k dflt = Inl (no_attribute v ''get'')"

text \<open>
  \<^verbatim>\<open>s.split(' ')\<close>: the string is cut at every space character; empty pieces are
  kept, and a string without a space is the only piece.
\<close>

fun split_space :: "string \<Rightarrow> string list" where
  "split_space [] = [[]]"
| "split_space (c # cs) =
     (if c = CHR '' '' then [] # split_space cs
      else (case split_space cs of
              [] \<Rightarrow> [[c]]
            | w # ws \<Rightarrow> (c # w) # ws))"

text \<open>\<^verbatim>\<open>" ".join(words)\<close>.\<close>

fun join_space :: "string list \<Rightarrow> string" where
  "join_space [] = []"
| "join_space [w] = w"
| "join_space (w # ws) = w @ '' '' @ join_space ws"

section \<open>Dates and times\<close>

text \<open>
  A \<^verbatim>\<open>datetime\<close> object: the calendar fields and \<^verbatim>\<open>tzinfo\<close>, which is
  \<^verbatim>\<open>None\<close> on a naive value. A \<open>FixedOffset\<close> is a \<^verbatim>\<open>datetime.timezone\<close> (what
  the parser attaches when the string carries an offset, in microseconds); a
  \<open>Zone\<close> is the \<^verbatim>\<open>tzinfo\<close> a pytz zone attaches: the zone's name and the UTC
  offset in seconds it has at that wall-clock time.
\<close>

datatype tzinfo = FixedOffset int | Zone string int

record datetime =
  year :: nat
  month :: nat
  day :: nat
  hour :: nat
  minute :: nat
  second :: nat
  microsecond :: nat
  tzinfo :: "tzinfo option"

text \<open>
  \<^verbatim>\<open>"%0wd" % n\<close>: the decimal digits of \<open>n\<close>, padded with zeros to width \<open>w\<close>.
\<close>

fun decimal :: "nat \<Rightarrow> string" where
  "decimal n =
     (if n < 10 then [''0123456789'' ! n]
      else decimal (n div 10) @ [''0123456789'' ! (n mod 10)])"

declare decimal.simps [simp del]

definition zero_pad :: "nat \<Rightarrow> nat \<Rightarrow> string" where
  "zero_pad w n = replicate (w - length (decimal n)) (CHR ''0'') @ decimal n"

text \<open>
  The offset suffix of \<^verbatim>\<open>datetime.isoformat()\<close>, from the offset in
  microseconds: a sign, \<^verbatim>\<open>HH:MM\<close>, then \<^verbatim>\<open>:SS\<close> and \<^verbatim>\<open>.ffffff\<close> only when they are
  not zero.
\<close>

definition format_offset :: "int \<Rightarrow> string" where
  "format_offset off =
     (let a = nat \<bar>off\<bar>;
          hh = a div 3600000000;
          mm = (a mod 3600000000) div 60000000;
          ss = (a mod 60000000) div 1000000;
          us = a mod 1000000
      in (if off < 0 then ''-'' else ''+'') @ zero_pad 2 hh @ '':'' @ zero_pad 2 mm
         @ (if ss \<noteq> 0 \<or> us \<noteq> 0
            then '':'' @ zero_pad 2 ss @ (if us \<noteq> 0 then ''.'' @ zero_pad 6 us else [])
            else []))"

text \<open>\<^verbatim>\<open>dt.utcoffset()\<close> in microseconds, \<^verbatim>\<open>None\<close> on a naive value.\<close>

fun utcoffset :: "datetime \<Rightarrow> int option" where
  "utcoffset dt =
     (case tzinfo dt of
        None \<Rightarrow> None
      | Some (FixedOffset us) \<Rightarrow> Some us
      | Some (Zone z secs) \<Rightarrow> Some (secs * 1000000))"

text \<open>
  \<^verbatim>\<open>dt.isoformat()\<close>: \<^verbatim>\<open>YYYY-MM-DDTHH:MM:SS\<close>, the microseconds when they are
  not zero, and the offset suffix when the value is aware.
\<close>

definition isoformat :: "datetime \<Rightarrow> string" where
  "isoformat dt =
     zero_pad 4 (year dt) @ ''-'' @ zero_pad 2 (month dt) @ ''-'' @ zero_pad 2 (day dt)
     @ ''T'' @ zero_pad 2 (hour dt) @ '':'' @ zero_pad 2 (minute dt) @ '':''
     @ zero_pad 2 (second dt)
     @ (if microsecond dt \<noteq> 0 then ''.'' @ zero_pad 6 (microsecond dt) else [])
     @ (case utcoffset dt of None \<Rightarrow> [] | Some off \<Rightarrow> format_offset off)"

section \<open>The collaborators of the handlers\<close>

text \<open>
  What \<^verbatim>\<open>requests.post\<close> returns: the fields of the response the handlers read.
  \<^verbatim>\<open>response.json()\<close> raises when the body is not JSON.
\<close>

record response =
  status_code :: int
  resp_text :: string
  resp_content :: string
  resp_json :: "exn + json"

text \<open>One outbound call: the arguments of \<^verbatim>\<open>requests.post(url, json=..., headers=...)\<close>.\<close>

record outbound =
  url :: string
  payload :: json
  headers :: "(string \<times> string) list"

text \<open>
  Everything the handlers call that is not in the source is a parameter:
  \<^item> \<open>post\<close> is \<^verbatim>\<open>requests.post\<close>: the provider's response, or the exception
    raised (no connection, a timeout);
  \<^item> \<open>parse_isoformat\<close> is what \<^verbatim>\<open>datetime.fromisoformat\<close> does with a string:
    the \<^verbatim>\<open>datetime\<close> it reads, or the exception it raises (the accepted
    grammar differs between CPython releases);
  \<^item> \<open>zone_offset\<close> is the time zone database behind \<^verbatim>\<open>pytz.timezone(name)\<close>: the
    UTC offset in seconds that the zone's \<^verbatim>\<open>localize\<close> gives a naive wall-clock
    time, or the exception it raises on it.
\<close>

record env =
  post :: "string \<Rightarrow> json \<Rightarrow> (string \<times> string) list \<Rightarrow> exn + response"
  parse_isoformat :: "string \<Rightarrow> exn + datetime"
  zone_offset :: "string \<Rightarrow> datetime \<Rightarrow> exn + int"

text \<open>
  \<^verbatim>\<open>datetime.fromisoformat(v)\<close>: its first statement refuses an argument that
  is not a \<^verbatim>\<open>str\<close> with a \<^verbatim>\<open>TypeError\<close>.
\<close>

definition fromisoformat :: "env \<Rightarrow> json \<Rightarrow> exn + datetime" where
  "fromisoformat e v =
     (case v of
        JStr s \<Rightarrow> parse_isoformat e s
      | _ \<Rightarrow> Inl (TypeError ''fromisoformat: argument must be str''))"

text \<open>
  \<^verbatim>\<open>tz.localize(dt)\<close> of a pytz zone (with the default \<^verbatim>\<open>is_dst=False\<close>): its first
  statement refuses a value whose \<^verbatim>\<open>tzinfo\<close> is already set, with a
  \<^verbatim>\<open>ValueError\<close>; a naive value keeps its calendar fields and gets the zone's
  \<^verbatim>\<open>tzinfo\<close> for that wall-clock time.
\<close>

definition localize :: "env \<Rightarrow> string \<Rightarrow> datetime \<Rightarrow> exn + datetime" where
  "localize e zone dt =
     (if tzinfo dt \<noteq> None
      then Inl (ValueError ''Not naive datetime (tzinfo is already set)'')
      else (case zone_offset e zone dt of
              Inl x \<Rightarrow> Inl x
            | Inr secs \<Rightarrow> Inr (dt\<lparr>tzinfo := Some (Zone zone secs)\<rparr>)))"

text \<open>The environment variables read at start (\<^verbatim>\<open>os.getenv\<close>: a string or \<^verbatim>\<open>None\<close>).\<close>

record config =
  ELEVENLABS_API_KEY :: "string option"
  ELEVENLABS_VOICE_ID :: "string option"
  GHL_API_KEY :: "string option"
  GHL_LOCATION_ID :: "string option"
  GHL_CALENDAR_ID :: "string option"

text \<open>A configuration value in a truth test, in an f-string and in a JSON payload.\<close>

fun is_set :: "string option \<Rightarrow> bool" where
  "is_set None = False"
| "is_set (Some s) = (s \<noteq> [])"

fun str_of_config :: "string option \<Rightarrow> string" where
  "str_of_config None = ''None''"
| "str_of_config (Some s) = s"

fun json_of_config :: "string option \<Rightarrow> json" where
  "json_of_config None = JNull"
| "json_of_config (Some s) = JStr s"

text \<open>
  What a handler returns: \<^verbatim>\<open>jsonify(body), status\<close> (status 200 when none is
  given), or \<^verbatim>\<open>send_file\<close> of the audio bytes with its MIME type and file name.
\<close>

datatype http_response =
    JsonResponse int json
  | FileResponse string string string

fun http_status :: "http_response \<Rightarrow> int" where
  "http_status (JsonResponse st b) = st"
| "http_status (FileResponse c m n) = 200"

text \<open>The value under a key of a JSON response body, \<open>None\<close> when it has none.\<close>

fun body_field :: "http_response \<Rightarrow> string \<Rightarrow> json option" where
  "body_field (JsonResponse st (JObj kvs)) k = map_of kvs k"
| "body_field r k = None"

section \<open>The booking handler\<close>

text \<open>
  \<^verbatim>\<open>book_appointment\<close> (\<^verbatim>\<open>src/app.py\<close>, lines 106 to 208). The model returns the
  HTTP response together with the outbound calls made, in order. Inside the
  \<^verbatim>\<open>try\<close> block a raised exception is the value \<open>Inl\<close>; the calls made before it
  stay in the trace. Logging has no effect on the response and is left out,
  except where evaluating its arguments can raise (line 131).
\<close>

definition required_fields :: "string list" where
  "required_fields = [''name'', ''phone'', ''email'', ''selectedSlot'']"

definition contact_url :: string where
  "contact_url = ''https://rest.gohighlevel.com/v1/contacts/''"

definition calendar_url :: string where
  "calendar_url = ''https://rest.gohighlevel.com/v1/appointments/''"

text \<open>
  Lines 126 to 129, the validation loop: the first required field for which
  \<^verbatim>\<open>field not in data\<close> holds, \<open>None\<close> when there is none; the membership test
  can raise.
\<close>

fun first_missing :: "string list \<Rightarrow> json \<Rightarrow> exn + string option" where
  "first_missing [] data = Inr None"
| "first_missing (field # rest) data =
     (case py_contains field data of
        Inl x \<Rightarrow> Inl x
      | Inr False \<Rightarrow> Inr (Some field)
      | Inr True \<Rightarrow> first_missing rest data)"

text \<open>
  Line 138, inside the inner \<^verbatim>\<open>try\<close>:
  \<^verbatim>\<open>central.localize(datetime.fromisoformat(data['selectedSlot']))\<close> with
  \<^verbatim>\<open>central = pytz_timezone("America/Chicago")\<close> (line 134).
\<close>

definition appointment_time_of :: "env \<Rightarrow> json \<Rightarrow> exn + datetime" where
  "appointment_time_of e data =
     (case py_getitem data ''selectedSlot'' of
        Inl x \<Rightarrow> Inl x
      | Inr slot \<Rightarrow>
          (case fromisoformat e slot of
             Inl x \<Rightarrow> Inl x
           | Inr dt \<Rightarrow> localize e ''America/Chicago'' dt))"

text \<open>
  Line 172: \<^verbatim>\<open>contact_data.get('id') or contact_data.get('contact', {}).get('id')\<close>.
  \<^verbatim>\<open>a or b\<close> is \<^verbatim>\<open>a\<close> when \<^verbatim>\<open>a\<close> is true in a truth test, and \<^verbatim>\<open>b\<close> otherwise.
\<close>

definition contact_id_of :: "json \<Rightarrow> exn + json" where
  "contact_id_of contact_data =
     (case py_get contact_data ''id'' JNull of
        Inl x \<Rightarrow> Inl x
      | Inr top_id \<Rightarrow>
          if truthy top_id then Inr top_id
          else (case py_get contact_data ''contact'' (JObj []) of
                  Inl x \<Rightarrow> Inl x
                | Inr c \<Rightarrow> py_get c ''id'' JNull))"

text \<open>
  The headers and the two payloads, as the source builds them (lines 150 to
  160 and 180 to 187). \<open>name\<close> is \<^verbatim>\<open>data['name']\<close>, a \<^verbatim>\<open>str\<close> once line 157 has
  split it; \<open>first # others\<close> is \<^verbatim>\<open>data['name'].split(' ')\<close>, so that \<open>first\<close> is its
  element 0 and \<open>others\<close> its slice \<^verbatim>\<open>[1:]\<close>.
\<close>

definition contact_headers :: "config \<Rightarrow> (string \<times> string) list" where
  "contact_headers cfg =
     [(''Authorization'', ''Bearer '' @ str_of_config (GHL_API_KEY cfg)),
      (''Content-Type'', ''application/json'')]"

definition contact_payload :: "config \<Rightarrow> json \<Rightarrow> json \<Rightarrow> string \<Rightarrow> string list \<Rightarrow> json" where
  "contact_payload cfg email phone first others =
     JObj [(''email'', email),
           (''phone'', phone),
           (''firstName'', JStr first),
           (''lastName'', JStr (if length (first # others) > 1 then join_space others else [])),
           (''locationId'', json_of_config (GHL_LOCATION_ID cfg))]"

definition calendar_payload :: "config \<Rightarrow> string \<Rightarrow> datetime \<Rightarrow> json \<Rightarrow> json" where
  "calendar_payload cfg name appointment_time contact_id =
     JObj [(''calendarId'', json_of_config (GHL_CALENDAR_ID cfg)),
           (''contactId'', contact_id),
           (''startTime'', JStr (isoformat appointment_time)),
           (''title'', JStr (''Appointment with '' @ name)),
           (''description'', JStr ''Appointment booked via VAPPI Voice Bot''),
           (''locationId'', json_of_config (GHL_LOCATION_ID cfg))]"

text \<open>Lines 178 to 204: the appointment call and the response made from its answer.\<close>

definition book_calendar ::
  "env \<Rightarrow> config \<Rightarrow> string \<Rightarrow> datetime \<Rightarrow> json \<Rightarrow> (exn + http_response) \<times> outbound list" where
  "book_calendar e cfg name appointment_time contact_id =
     (let call = \<lparr>url = calendar_url,
                   payload = calendar_payload cfg name appointment_time contact_id,
                   headers = contact_headers cfg\<rparr>
      in (case post e (url call) (payload call) (headers call) of
            Inl x \<Rightarrow> (Inl x, [call])
          | Inr calendar_response \<Rightarrow>
              if status_code calendar_response \<in> {200, 201}
              then (case resp_json calendar_response of
                      Inl x \<Rightarrow> (Inl x, [call])
                    | Inr appointment \<Rightarrow>
                        (Inr (JsonResponse 200 (JObj
                           [(''success'', JBool True),
                            (''message'', JStr ''Appointment booked successfully''),
                            (''scheduled_time'', JStr (isoformat appointment_time)),
                            (''appointment'', appointment)])), [call]))
              else (Inr (JsonResponse 500 (JObj
                      [(''error'', JStr ''Failed to book appointment''),
                       (''details'', JStr (resp_text calendar_response))])), [call])))"

text \<open>
  Lines 162 to 176, and then the appointment step: the contact call, the
  check of its status, the contact id.
\<close>

definition book_upsert ::
  "env \<Rightarrow> config \<Rightarrow> string \<Rightarrow> datetime \<Rightarrow> json \<Rightarrow> (exn + http_response) \<times> outbound list" where
  "book_upsert e cfg name appointment_time contact_body =
     (let call = \<lparr>url = contact_url, payload = contact_body, headers = contact_headers cfg\<rparr>
      in (case post e (url call) (payload call) (headers call) of
            Inl x \<Rightarrow> (Inl x, [call])
          | Inr contact_response \<Rightarrow>
              if status_code contact_response \<notin> {200, 201}
              then (Inr (JsonResponse 500 (JObj
                      [(''error'', JStr ''Failed to create contact''),
                       (''details'', JStr (resp_text contact_response))])), [call])
              else (case resp_json contact_response of
                      Inl x \<Rightarrow> (Inl x, [call])
                    | Inr contact_data \<Rightarrow>
                       (case contact_id_of contact_data of
                          Inl x \<Rightarrow> (Inl x, [call])
                        | Inr contact_id \<Rightarrow>
                            if \<not> truthy contact_id
                            then (Inr (JsonResponse 500 (JObj
                                    [(''error'', JStr ''Failed to get contact ID'')])), [call])
                            else (case book_calendar e cfg name appointment_time contact_id of
                                    (r, calls) \<Rightarrow> (r, call # calls))))))"

text \<open>
  Lines 154 to 160: the contact payload from the request, which raises when
  \<^verbatim>\<open>data['name']\<close> has no \<^verbatim>\<open>split\<close>; then the calls. The source evaluates
  \<^verbatim>\<open>data['name'].split(' ')\<close> three times, with the same result; the model
  evaluates it once.
\<close>

definition book_contact ::
  "env \<Rightarrow> config \<Rightarrow> json \<Rightarrow> datetime \<Rightarrow> (exn + http_response) \<times> outbound list" where
  "book_contact e cfg data appointment_time =
     (case py_getitem data ''email'' of
        Inl x \<Rightarrow> (Inl x, [])
      | Inr email \<Rightarrow>
     (case py_getitem data ''phone'' of
        Inl x \<Rightarrow> (Inl x, [])
      | Inr phone \<Rightarrow>
     (case py_getitem data ''name'' of
        Inl x \<Rightarrow> (Inl x, [])
      | Inr (JStr name) \<Rightarrow>
         (case split_space name of
            [] \<Rightarrow> (Inl (IndexError ''list index out of range''), [])
          | first # others \<Rightarrow>
              book_upsert e cfg name appointment_time
                (contact_payload cfg email phone first others))
      | Inr v \<Rightarrow> (Inl (no_attribute v ''split''), []))))"

text \<open>
  Lines 122 to 146, the body of the outer \<^verbatim>\<open>try\<close>: \<open>req\<close> is what
  \<^verbatim>\<open>request.get_json()\<close> does, the parsed body (\<open>JNull\<close> is \<^verbatim>\<open>None\<close>) or the
  exception it raises.
\<close>

definition book_appointment_try ::
  "env \<Rightarrow> config \<Rightarrow> exn + json \<Rightarrow> (exn + http_response) \<times> outbound list" where
  "book_appointment_try e cfg req =
     (case req of
        Inl x \<Rightarrow> (Inl x, [])
      | Inr data \<Rightarrow>
         (case first_missing required_fields data of
            Inl x \<Rightarrow> (Inl x, [])
          | Inr (Some field) \<Rightarrow>
              (Inr (JsonResponse 400 (JObj
                 [(''error'', JStr (''Missing '' @ quoted field @ '' field''))])), [])
          | Inr None \<Rightarrow>
             (case py_getitem data ''name'' of
                Inl x \<Rightarrow> (Inl x, [])
              | Inr logged \<Rightarrow>
                 (case appointment_time_of e data of
                    Inl x \<Rightarrow>
                      (Inr (JsonResponse 400 (JObj
                         [(''error'', JStr (''Invalid datetime format: '' @ str_exn x))])), [])
                  | Inr appointment_time \<Rightarrow>
                      if \<not> (is_set (GHL_API_KEY cfg) \<and> is_set (GHL_LOCATION_ID cfg)
                            \<and> is_set (GHL_CALENDAR_ID cfg))
                      then (Inr (JsonResponse 500 (JObj
                              [(''error'', JStr ''GoHighLevel API configuration incomplete'')])), [])
                      else book_contact e cfg data appointment_time))))"

text \<open>
  Lines 206 to 208: the outer \<^verbatim>\<open>except Exception\<close> turns whatever was raised into
  a 500 response with \<^verbatim>\<open>str(e)\<close>.
\<close>

definition book_appointment ::
  "env \<Rightarrow> config \<Rightarrow> exn + json \<Rightarrow> http_response \<times> outbound list" where
  "book_appointment e cfg req =
     (case book_appointment_try e cfg req of
        (Inl x, calls) \<Rightarrow> (JsonResponse 500 (JObj [(''error'', JStr (str_exn x))]), calls)
      | (Inr r, calls) \<Rightarrow> (r, calls))"

section \<open>The voice handler\<close>

text \<open>
  \<^verbatim>\<open>generate_voice\<close> (\<^verbatim>\<open>src/app.py\<close>, lines 36 to 104), modelled as the booking
  handler is: the response and the outbound calls.
\<close>

text \<open>
  Line 56 formats \<^verbatim>\<open>text[:50]\<close> for the log: the exception the slice raises,
  \<open>None\<close> on a \<^verbatim>\<open>str\<close> or a list, which it slices.
\<close>

fun slice_error :: "json \<Rightarrow> exn option" where
  "slice_error (JStr s) = None"
| "slice_error (JArr xs) = None"
| "slice_error (JObj kvs) = Some (TypeError (''unhashable type: '' @ quoted ''slice''))"
| "slice_error v = Some (TypeError (quoted (type_name v) @ '' object is not subscriptable''))"

definition generate_voice_try ::
  "env \<Rightarrow> config \<Rightarrow> exn + json \<Rightarrow> (exn + http_response) \<times> outbound list" where
  "generate_voice_try e cfg req =
     (let missing = (Inr (JsonResponse 400 (JObj
                       [(''error'', JStr (''Missing '' @ quoted ''text'' @ '' field''))])), [])
      in (case req of
            Inl x \<Rightarrow> (Inl x, [])
          | Inr data \<Rightarrow>
              if \<not> truthy data then missing
              else (case py_contains ''text'' data of
                      Inl x \<Rightarrow> (Inl x, [])
                    | Inr False \<Rightarrow> missing
                    | Inr True \<Rightarrow>
                       (case py_getitem data ''text'' of
                          Inl x \<Rightarrow> (Inl x, [])
                        | Inr text_value \<Rightarrow>
                           (case slice_error text_value of
                              Some x \<Rightarrow> (Inl x, [])
                            | None \<Rightarrow>
                                if \<not> is_set (ELEVENLABS_API_KEY cfg)
                                then (Inr (JsonResponse 500 (JObj
                                        [(''error'', JStr ''ElevenLabs API key not configured'')])), [])
                                else if \<not> is_set (ELEVENLABS_VOICE_ID cfg)
                                then (Inr (JsonResponse 500 (JObj
                                        [(''error'', JStr ''ElevenLabs voice ID not configured'')])), [])
                                else
                                 (let voice_url = ''https://api.elevenlabs.io/v1/text-to-speech/''
                                        @ str_of_config (ELEVENLABS_VOICE_ID cfg);
                                      voice_headers =
                                        [(''Accept'', ''audio/mpeg''),
                                         (''Content-Type'', ''application/json''),
                                         (''xi-api-key'', str_of_config (ELEVENLABS_API_KEY cfg))];
                                      voice_payload = JObj
                                        [(''text'', text_value),
                                         (''model_id'', JStr ''eleven_monolingual_v1''),
                                         (''voice_settings'', JObj
                                            [(''stability'', JFloat 0.5),
                                             (''similarity_boost'', JFloat 0.5)])];
                                      call = \<lparr>url = voice_url, payload = voice_payload,
                                                headers = voice_headers\<rparr>
                                  in (case post e voice_url voice_payload voice_headers of
                                        Inl x \<Rightarrow> (Inl x, [call])
                                      | Inr voice_response \<Rightarrow>
                                          if status_code voice_response = 200
                                          then (Inr (FileResponse (resp_content voice_response)
                                                  ''audio/mpeg'' ''voice.mp3''), [call])
                                          else (Inr (JsonResponse (status_code voice_response) (JObj
                                                  [(''error'', JStr ''Failed to generate voice''),
                                                   (''details'', JStr (resp_text voice_response))])),
                                                [call]))))))))"

definition generate_voice ::
  "env \<Rightarrow> config \<Rightarrow> exn + json \<Rightarrow> http_response \<times> outbound list" where
  "generate_voice e cfg req =
     (case generate_voice_try e cfg req of
        (Inl x, calls) \<Rightarrow> (JsonResponse 500 (JObj [(''error'', JStr (str_exn x))]), calls)
      | (Inr r, calls) \<Rightarrow> (r, calls))"

section \<open>A reference for the library parameters\<close>

text \<open>
  The general theorems below hold for every parser and every time zone
  database. The concrete inputs of the specification need a concrete
  library; this section gives one, from the documented behaviour of the
  libraries (it is not code of the repository).
\<close>

subsection \<open>The ISO format parser\<close>

text \<open>
  The grammar documented for \<^verbatim>\<open>datetime.fromisoformat\<close> since Python 3.7:
  \<^verbatim>\<open>YYYY-MM-DD[*HH[:MM[:SS[.fff[fff]]]][+HH:MM[:SS[.ffffff]]]]\<close>, where \<^verbatim>\<open>*\<close> is any
  one character. A string outside the grammar raises
  \<^verbatim>\<open>ValueError("Invalid isoformat string: ...")\<close>; fields out of range raise the
  \<^verbatim>\<open>ValueError\<close> of the \<^verbatim>\<open>datetime\<close> constructor. Python 3.11 and later read
  further ISO 8601 forms, which this reference refuses.
\<close>

definition is_digit :: "char \<Rightarrow> bool" where
  "is_digit c = (c \<in> set ''0123456789'')"

definition digit_value :: "char \<Rightarrow> nat" where
  "digit_value c = of_char c - 48"

definition number :: "string \<Rightarrow> nat option" where
  "number s =
     (if s \<noteq> [] \<and> list_all is_digit s
      then Some (foldl (\<lambda>n c. 10 * n + digit_value c) 0 s)
      else None)"

text \<open>\<^verbatim>\<open>HH[:MM[:SS[.fff[fff]]]]\<close>: hour, minute, second, microsecond.\<close>

definition parse_hh_mm_ss_ff :: "string \<Rightarrow> (nat \<times> nat \<times> nat \<times> nat) option" where
  "parse_hh_mm_ss_ff s =
     (if length s = 2 then
        (case number s of Some h \<Rightarrow> Some (h, 0, 0, 0) | None \<Rightarrow> None)
      else if length s = 5 \<and> s ! 2 = CHR '':'' then
        (case (number (take 2 s), number (drop 3 s)) of
           (Some h, Some m) \<Rightarrow> Some (h, m, 0, 0)
         | _ \<Rightarrow> None)
      else if length s = 8 \<and> s ! 2 = CHR '':'' \<and> s ! 5 = CHR '':'' then
        (case (number (take 2 s), number (take 2 (drop 3 s)), number (drop 6 s)) of
           (Some h, Some m, Some sec) \<Rightarrow> Some (h, m, sec, 0)
         | _ \<Rightarrow> None)
      else if (length s = 12 \<or> length s = 15) \<and> s ! 2 = CHR '':'' \<and> s ! 5 = CHR '':''
              \<and> s ! 8 = CHR ''.'' then
        (case (number (take 2 s), number (take 2 (drop 3 s)), number (take 2 (drop 6 s)),
               number (drop 9 s)) of
           (Some h, Some m, Some sec, Some f) \<Rightarrow>
             Some (h, m, sec, if length s = 12 then f * 1000 else f)
         | _ \<Rightarrow> None)
      else None)"

text \<open>
  The part after the separator: the time, then the offset from the first sign
  on. The offset is kept in microseconds; \<^verbatim>\<open>datetime.timezone\<close> refuses one of 24
  hours or more.
\<close>

definition parse_isoformat_time ::
  "string \<Rightarrow> exn + ((nat \<times> nat \<times> nat \<times> nat) \<times> tzinfo option) option" where
  "parse_isoformat_time tstr =
     (let no_sign = (\<lambda>c. c \<noteq> CHR ''+'' \<and> c \<noteq> CHR ''-'');
          timestr = takeWhile no_sign tstr
      in (case parse_hh_mm_ss_ff timestr of
            None \<Rightarrow> Inr None
          | Some t \<Rightarrow>
              (case dropWhile no_sign tstr of
                 [] \<Rightarrow> Inr (Some (t, None))
               | sign # tzstr \<Rightarrow>
                   if length tzstr = 5 \<or> length tzstr = 8 \<or> length tzstr = 15 then
                     (case parse_hh_mm_ss_ff tzstr of
                        None \<Rightarrow> Inr None
                      | Some (h, m, sec, f) \<Rightarrow>
                          (let us = ((h * 3600 + m * 60 + sec) * 1000000 + f)
                           in if us \<ge> 86400000000
                              then Inl (ValueError (''offset must be a timedelta strictly between ''
                                     @ ''-timedelta(hours=24) and timedelta(hours=24)''))
                              else Inr (Some (t, Some (FixedOffset
                                     (if sign = CHR ''-'' then - int us else int us))))))
                   else Inr None)))"

definition is_leap :: "nat \<Rightarrow> bool" where
  "is_leap y = (y mod 4 = 0 \<and> (y mod 100 \<noteq> 0 \<or> y mod 400 = 0))"

definition days_in_month :: "nat \<Rightarrow> nat \<Rightarrow> nat" where
  "days_in_month y m =
     (if m = 2 then (if is_leap y then 29 else 28)
      else if m \<in> {4, 6, 9, 11} then 30 else 31)"

text \<open>The range checks of the \<^verbatim>\<open>datetime\<close> constructor, in its order.\<close>

definition new_datetime ::
  "nat \<Rightarrow> nat \<Rightarrow> nat \<Rightarrow> nat \<Rightarrow> nat \<Rightarrow> nat \<Rightarrow> nat \<Rightarrow> tzinfo option \<Rightarrow> exn + datetime" where
  "new_datetime y mo d h mi sec us tz =
     (if y < 1 \<or> y > 9999 then Inl (ValueError (''year '' @ decimal y @ '' is out of range''))
      else if mo < 1 \<or> mo > 12 then Inl (ValueError ''month must be in 1..12'')
      else if d < 1 \<or> d > days_in_month y mo then Inl (ValueError ''day is out of range for month'')
      else if h > 23 then Inl (ValueError ''hour must be in 0..23'')
      else if mi > 59 then Inl (ValueError ''minute must be in 0..59'')
      else if sec > 59 then Inl (ValueError ''second must be in 0..59'')
      else Inr \<lparr>year = y, month = mo, day = d, hour = h, minute = mi, second = sec,
                microsecond = us, tzinfo = tz\<rparr>)"

definition iso_grammar :: "string \<Rightarrow> exn + datetime" where
  "iso_grammar s =
     (let invalid = Inl (ValueError (''Invalid isoformat string: '' @ quoted s))
      in if length s < 10 \<or> s ! 4 \<noteq> CHR ''-'' \<or> s ! 7 \<noteq> CHR ''-'' then invalid
         else (case (number (take 4 s), number (take 2 (drop 5 s)), number (take 2 (drop 8 s))) of
                 (Some y, Some mo, Some d) \<Rightarrow>
                   if length s = 10 then new_datetime y mo d 0 0 0 0 None
                   else (case parse_isoformat_time (drop 11 s) of
                           Inl x \<Rightarrow> Inl x
                         | Inr None \<Rightarrow> invalid
                         | Inr (Some ((h, mi, sec, us), tz)) \<Rightarrow> new_datetime y mo d h mi sec us tz)
               | _ \<Rightarrow> invalid))"

subsection \<open>The zone America/Chicago\<close>

text \<open>
  The rule of the zone since 2007, the one pytz holds for the years 2007 to
  2037: daylight time (UTC-5) from the second Sunday of March to the first
  Sunday of November, standard time (UTC-6) otherwise. \<^verbatim>\<open>localize\<close> with
  \<^verbatim>\<open>is_dst=False\<close> gives the wall-clock hour that the change to daylight time
  skips (02:00 to 03:00) and the hour that the change back repeats (01:00 to
  02:00) standard time. The reference applies this rule to every year, so it
  is the zone only for the years 2007 to 2037.
\<close>

definition days_before_year :: "nat \<Rightarrow> nat" where
  "days_before_year y = (y - 1) * 365 + (y - 1) div 4 - (y - 1) div 100 + (y - 1) div 400"

text \<open>The days of the year before month \<open>m\<close> (1 to 12), as the table of \<^verbatim>\<open>datetime\<close> has them.\<close>

definition days_before_month :: "nat \<Rightarrow> nat \<Rightarrow> nat" where
  "days_before_month y m =
     [0, 0, 31, 59, 90, 120, 151, 181, 212, 243, 273, 304, 334] ! m
     + (if m > 2 \<and> is_leap y then 1 else 0)"

text \<open>The proleptic Gregorian ordinal of a date; it is a multiple of 7 on a Sunday.\<close>

definition ymd2ord :: "nat \<Rightarrow> nat \<Rightarrow> nat \<Rightarrow> nat" where
  "ymd2ord y m d = days_before_year y + days_before_month y m + d"

text \<open>The first Sunday of month \<open>m\<close> on or after day \<open>d\<close>.\<close>

definition sunday_from :: "nat \<Rightarrow> nat \<Rightarrow> nat \<Rightarrow> nat" where
  "sunday_from y m d = d + (7 - ymd2ord y m d mod 7) mod 7"

definition is_daylight_time :: "datetime \<Rightarrow> bool" where
  "is_daylight_time dt =
     (let wall = (month dt * 100 + day dt) * 100 + hour dt;
          starts = (3 * 100 + sunday_from (year dt) 3 8) * 100 + 3;
          ends = (11 * 100 + sunday_from (year dt) 11 1) * 100 + 1
      in starts \<le> wall \<and> wall < ends)"

definition america_chicago :: "datetime \<Rightarrow> exn + int" where
  "america_chicago dt = Inr (if is_daylight_time dt then - 18000 else - 21600)"

definition tz_database :: "string \<Rightarrow> datetime \<Rightarrow> exn + int" where
  "tz_database zone dt =
     (if zone = ''America/Chicago'' then america_chicago dt
      else Inl (UpstreamException (''zone not in the reference: '' @ zone)))"

text \<open>The reference library around a given network.\<close>

definition python_env ::
  "(string \<Rightarrow> json \<Rightarrow> (string \<times> string) list \<Rightarrow> exn + response) \<Rightarrow> env" where
  "python_env network =
     \<lparr>post = network, parse_isoformat = iso_grammar, zone_offset = tz_database\<rparr>"

section \<open>Sample collaborators\<close>

text \<open>
  Concrete configurations, requests and networks, at which the theorems
  below are instantiated.
\<close>

definition demo_config :: config where
  "demo_config =
     \<lparr>ELEVENLABS_API_KEY = Some ''xi-key'', ELEVENLABS_VOICE_ID = Some ''voice-1'',
      GHL_API_KEY = Some ''ghl-key'', GHL_LOCATION_ID = Some ''loc-1'',
      GHL_CALENDAR_ID = Some ''cal-1''\<rparr>"

definition booking :: "json \<Rightarrow> json \<Rightarrow> json \<Rightarrow> json \<Rightarrow> json" where
  "booking name phone email slot =
     JObj [(''name'', name), (''phone'', phone), (''email'', email), (''selectedSlot'', slot)]"

definition upstream :: "int \<Rightarrow> string \<Rightarrow> exn + json \<Rightarrow> response" where
  "upstream st body parsed =
     \<lparr>status_code = st, resp_text = body, resp_content = body, resp_json = parsed\<rparr>"

text \<open>A CRM that answers the contact call and the appointment call as given.\<close>

definition crm ::
  "response \<Rightarrow> response \<Rightarrow> string \<Rightarrow> json \<Rightarrow> (string \<times> string) list \<Rightarrow> exn + response" where
  "crm contact_answer calendar_answer u p h =
     (if u = contact_url then Inr contact_answer
      else if u = calendar_url then Inr calendar_answer
      else Inl (UpstreamException ''no route''))"

text \<open>A speech provider that gives every call the same answer.\<close>

definition speech ::
  "response \<Rightarrow> string \<Rightarrow> json \<Rightarrow> (string \<times> string) list \<Rightarrow> exn + response" where
  "speech answer u p h = Inr answer"

text \<open>
  A contact answer 201 with the nested shape of the contact id, and an
  appointment answer 200.
\<close>

definition created :: response where
  "created = upstream 201 ''created'' (Inr (JObj [(''contact'', JObj [(''id'', JStr ''c456'')])]))"

definition booked :: response where
  "booked = upstream 200 ''booked'' (Inr (JObj [(''id'', JStr ''a1'')]))"

text \<open>The value under a key of a JSON object, \<open>None\<close> when it has none.\<close>

fun json_field :: "json \<Rightarrow> string \<Rightarrow> json option" where
  "json_field (JObj kvs) k = map_of kvs k"
| "json_field v k = None"

section \<open>The reading of the specification, for comparison\<close>

text \<open>
  The specification speaks of the whitespace-delimited tokens of a name. These
  definitions follow its words (they are not code of the repository): the
  tokens are the maximal runs of characters that are not whitespace, as
  \<^verbatim>\<open>str.split()\<close> without an argument gives them.
\<close>

definition is_whitespace :: "char \<Rightarrow> bool" where
  "is_whitespace c = (c \<in> set [CHR '' '', CHR 0x09, CHR 0x0A, CHR 0x0B, CHR 0x0C, CHR 0x0D])"

fun tokens_from :: "string \<Rightarrow> string \<Rightarrow> string list" where
  "tokens_from cur [] = (if cur = [] then [] else [rev cur])"
| "tokens_from cur (c # cs) =
     (if is_whitespace c
      then (if cur = [] then tokens_from [] cs else rev cur # tokens_from [] cs)
      else tokens_from (c # cur) cs)"

definition whitespace_tokens :: "string \<Rightarrow> string list" where
  "whitespace_tokens s = tokens_from [] s"

definition spec_first_name :: "string \<Rightarrow> string" where
  "spec_first_name s = (case whitespace_tokens s of [] \<Rightarrow> [] | w # ws \<Rightarrow> w)"

definition spec_last_name :: "string \<Rightarrow> string" where
  "spec_last_name s = join_space (tl (whitespace_tokens s))"

text \<open>
  The specification names two shapes of the contact answer: the id at the top
  level, or under \<^verbatim>\<open>contact\<close>. \<open>id_under\<close> is the value under \<^verbatim>\<open>id\<close> of an object
  (\<open>JNull\<close> when it has none); \<open>two_shapes_id\<close> is the id by the two shapes, the
  top level first.
\<close>

definition id_under :: "(string \<times> json) list \<Rightarrow> json" where
  "id_under kvs = (case map_of kvs ''id'' of None \<Rightarrow> JNull | Some v \<Rightarrow> v)"

definition two_shapes_id :: "(string \<times> json) list \<Rightarrow> json" where
  "two_shapes_id kvs =
     (if truthy (id_under kvs) then id_under kvs
      else (case map_of kvs ''contact'' of Some (JObj cs) \<Rightarrow> id_under cs | _ \<Rightarrow> JNull))"

section \<open>Splitting and joining at the space character\<close>

lemma split_space_first:
  "split_space s
     = takeWhile (\<lambda>c. c \<noteq> CHR '' '') s
       # (case dropWhile (\<lambda>c. c \<noteq> CHR '' '') s of [] \<Rightarrow> [] | sp # rest \<Rightarrow> split_space rest)"
  by (induction s) (auto split: list.splits)

lemma split_space_nonempty: "split_space s \<noteq> []"
  by (subst split_space_first) simp

lemma join_space_Cons: "join_space ((c # w) # ws) = c # join_space (w # ws)"
  by (cases ws) simp_all

lemma join_split_space: "join_space (split_space s) = s"
proof (induction s)
  case Nil
  show ?case by simp
next
  case (Cons c cs)
  obtain w ws where sp: "split_space cs = w # ws"
    using split_space_nonempty [of cs] by (cases "split_space cs") auto
  with Cons show ?case
    by (auto simp: join_space_Cons)
qed

lemma last_name_after_first_space:
  assumes "split_space s = first # others"
  shows "(if length (first # others) > 1 then join_space others else [])
           = drop 1 (dropWhile (\<lambda>c. c \<noteq> CHR '' '') s)"
proof (cases "dropWhile (\<lambda>c. c \<noteq> CHR '' '') s")
  case Nil
  with assms split_space_first [of s] have "others = []" by simp
  then show ?thesis unfolding Nil by simp
next
  case (Cons sp rest)
  with assms split_space_first [of s] have others: "others = split_space rest" by simp
  then have "others \<noteq> []" by (simp add: split_space_nonempty)
  then have "length (first # others) > 1" by (cases others) simp_all
  moreover have "join_space others = rest" by (simp add: others join_split_space)
  ultimately show ?thesis unfolding Cons by simp
qed

lemma split_space_word: "CHR '' '' \<notin> set w \<Longrightarrow> split_space (w @ CHR '' '' # rest) = w # split_space rest"
  by (induction w) auto

lemma split_space_no_space: "CHR '' '' \<notin> set w \<Longrightarrow> split_space w = [w]"
  by (induction w) auto

lemma split_join_space:
  "ws \<noteq> [] \<Longrightarrow> (\<forall>w \<in> set ws. CHR '' '' \<notin> set w) \<Longrightarrow> split_space (join_space ws) = ws"
  by (induction ws rule: join_space.induct) (auto simp: split_space_word split_space_no_space)

section \<open>The two CRM endpoints\<close>

lemma urls_differ: "contact_url \<noteq> calendar_url"
  by (simp add: contact_url_def calendar_url_def)

section \<open>The reference library at the inputs of the specification\<close>

lemmas parser_defs = iso_grammar_def parse_isoformat_time_def parse_hh_mm_ss_ff_def number_def
  is_digit_def digit_value_def new_datetime_def days_in_month_def Let_def

lemma iso_grammar_slot:
  "iso_grammar ''2023-04-25T14:00:00''
     = Inr \<lparr>year = 2023, month = 4, day = 25, hour = 14, minute = 0, second = 0,
            microsecond = 0, tzinfo = None\<rparr>"
  by (simp add: parser_defs)

lemma iso_grammar_offset:
  "iso_grammar ''2023-04-25T14:00:00+02:00''
     = Inr \<lparr>year = 2023, month = 4, day = 25, hour = 14, minute = 0, second = 0,
            microsecond = 0, tzinfo = Some (FixedOffset 7200000000)\<rparr>"
  by (simp add: parser_defs)

lemma iso_grammar_not_a_date:
  "iso_grammar ''not-a-date''
     = Inl (ValueError (''Invalid isoformat string: '' @ quoted ''not-a-date''))"
  by (simp add: parser_defs)

lemma iso_grammar_out_of_range:
  "iso_grammar ''2023-13-40T99:00:00'' = Inl (ValueError ''month must be in 1..12'')"
  by (simp add: parser_defs)

lemma iso_grammar_trailing:
  "iso_grammar ''2023-04-25T14:00:00xyz''
     = Inl (ValueError (''Invalid isoformat string: '' @ quoted ''2023-04-25T14:00:00xyz''))"
  by (simp add: parser_defs)

lemma america_chicago_slot:
  "america_chicago \<lparr>year = 2023, month = 4, day = 25, hour = 14, minute = 0, second = 0,
            microsecond = 0, tzinfo = None\<rparr> = Inr (- 18000)"
  by (simp add: america_chicago_def is_daylight_time_def sunday_from_def ymd2ord_def
        days_before_year_def days_before_month_def is_leap_def Let_def)

lemma isoformat_slot:
  "isoformat \<lparr>year = 2023, month = 4, day = 25, hour = 14, minute = 0, second = 0,
            microsecond = 0, tzinfo = Some (Zone ''America/Chicago'' (- 18000))\<rparr>
     = ''2023-04-25T14:00:00-05:00''"
  by (simp add: isoformat_def zero_pad_def format_offset_def decimal.simps Let_def)

text \<open>The sample request up to the contact step, on the reference library.\<close>

lemma demo_booking:
  "book_appointment (python_env net) demo_config
     (Inr (booking (JStr name) phone email (JStr ''2023-04-25T14:00:00'')))
   = (case split_space name of
        [] \<Rightarrow> (JsonResponse 500 (JObj [(''error'', JStr ''list index out of range'')]), [])
      | first # others \<Rightarrow>
         (case book_upsert (python_env net) demo_config name
                 \<lparr>year = 2023, month = 4, day = 25, hour = 14, minute = 0, second = 0,
                  microsecond = 0, tzinfo = Some (Zone ''America/Chicago'' (- 18000))\<rparr>
                 (contact_payload demo_config email phone first others) of
            (Inl x, calls) \<Rightarrow> (JsonResponse 500 (JObj [(''error'', JStr (str_exn x))]), calls)
          | (Inr r, calls) \<Rightarrow> (r, calls)))"
  by (simp add: book_appointment_def book_appointment_try_def required_fields_def booking_def
        appointment_time_of_def fromisoformat_def localize_def python_env_def tz_database_def
        iso_grammar_slot america_chicago_slot demo_config_def book_contact_def
      split: list.splits)

lemmas crm_defs = book_upsert_def book_calendar_def python_env_def crm_def upstream_def
  contact_id_of_def Let_def

text \<open>The sample request on a CRM that accepts both calls.\<close>

lemma demo_booked:
  "book_appointment (python_env (crm created booked)) demo_config
     (Inr (booking (JStr ''Jane Doe Smith'') phone email (JStr ''2023-04-25T14:00:00'')))
   = (JsonResponse 200 (JObj
        [(''success'', JBool True),
         (''message'', JStr ''Appointment booked successfully''),
         (''scheduled_time'', JStr ''2023-04-25T14:00:00-05:00''),
         (''appointment'', JObj [(''id'', JStr ''a1'')])]),
      [\<lparr>url = contact_url,
        payload = JObj [(''email'', email), (''phone'', phone), (''firstName'', JStr ''Jane''),
                        (''lastName'', JStr ''Doe Smith''), (''locationId'', JStr ''loc-1'')],
        headers = [(''Authorization'', ''Bearer ghl-key''), (''Content-Type'', ''application/json'')]\<rparr>,
       \<lparr>url = calendar_url,
        payload = JObj [(''calendarId'', JStr ''cal-1''), (''contactId'', JStr ''c456''),
                        (''startTime'', JStr ''2023-04-25T14:00:00-05:00''),
                        (''title'', JStr ''Appointment with Jane Doe Smith''),
                        (''description'', JStr ''Appointment booked via VAPPI Voice Bot''),
                        (''locationId'', JStr ''loc-1'')],
        headers = [(''Authorization'', ''Bearer ghl-key''), (''Content-Type'', ''application/json'')]\<rparr>])"
  unfolding demo_booking
  by (simp add: crm_defs created_def booked_def urls_differ [symmetric] isoformat_slot
        contact_payload_def calendar_payload_def contact_headers_def demo_config_def)

lemma demo_booked_calls:
  assumes "split_space name = first # others"
  shows "snd (book_appointment (python_env (crm created booked)) demo_config
           (Inr (booking (JStr name) phone email (JStr ''2023-04-25T14:00:00''))))
   = [\<lparr>url = contact_url, payload = contact_payload demo_config email phone first others,
        headers = contact_headers demo_config\<rparr>,
      \<lparr>url = calendar_url,
        payload = calendar_payload demo_config name
                    \<lparr>year = 2023, month = 4, day = 25, hour = 14, minute = 0, second = 0,
                     microsecond = 0, tzinfo = Some (Zone ''America/Chicago'' (- 18000))\<rparr>
                    (JStr ''c456''),
        headers = contact_headers demo_config\<rparr>]"
  unfolding demo_booking
  using assms by (simp add: crm_defs created_def booked_def urls_differ [symmetric])

text \<open>The sample voice request, whatever the speech provider answers.\<close>

lemma demo_voice:
  "generate_voice (python_env (speech (upstream st body parsed))) demo_config
     (Inr (JObj [(''text'', JStr ''hello'')]))
   = (if st = 200 then FileResponse body ''audio/mpeg'' ''voice.mp3''
      else JsonResponse st (JObj [(''error'', JStr ''Failed to generate voice''),
                                  (''details'', JStr body)]),
      [\<lparr>url = ''https://api.elevenlabs.io/v1/text-to-speech/voice-1'',
        payload = JObj [(''text'', JStr ''hello''), (''model_id'', JStr ''eleven_monolingual_v1''),
                        (''voice_settings'', JObj [(''stability'', JFloat 0.5),
                                                   (''similarity_boost'', JFloat 0.5)])],
        headers = [(''Accept'', ''audio/mpeg''), (''Content-Type'', ''application/json''),
                   (''xi-api-key'', ''xi-key'')]\<rparr>])"
  by (simp add: generate_voice_def generate_voice_try_def python_env_def speech_def upstream_def
        demo_config_def Let_def)

section \<open>The shape of a run\<close>

text \<open>
  A run that makes an outbound call has passed validation, time
  normalisation and the configuration check, and is a run of the contact
  step; the calls of that step are the contact call and then at most the
  appointment call.
\<close>

lemma py_getitem_dict:
  "py_getitem data k = Inr v \<Longrightarrow> \<exists>kvs. data = JObj kvs \<and> map_of kvs k = Some v"
  by (cases data) (auto split: option.splits)

lemma book_reaches_upsert:
  assumes "book_appointment_try e cfg req = (res, calls)" and "calls \<noteq> []"
  shows "\<exists>kvs name email phone slot dt secs first others.
           req = Inr (JObj kvs)
         \<and> first_missing required_fields (JObj kvs) = Inr None
         \<and> map_of kvs ''name'' = Some (JStr name)
         \<and> map_of kvs ''phone'' = Some phone
         \<and> map_of kvs ''email'' = Some email
         \<and> map_of kvs ''selectedSlot'' = Some (JStr slot)
         \<and> parse_isoformat e slot = Inr dt \<and> tzinfo dt = None
         \<and> zone_offset e ''America/Chicago'' dt = Inr secs
         \<and> is_set (GHL_API_KEY cfg) \<and> is_set (GHL_LOCATION_ID cfg) \<and> is_set (GHL_CALENDAR_ID cfg)
         \<and> split_space name = first # others
         \<and> book_upsert e cfg name (dt\<lparr>tzinfo := Some (Zone ''America/Chicago'' secs)\<rparr>)
              (contact_payload cfg email phone first others) = (res, calls)"
proof -
  from assms obtain data where req: "req = Inr data"
    by (cases req) (auto simp: book_appointment_try_def)
  from assms req have fm: "first_missing required_fields data = Inr None"
    by (auto simp: book_appointment_try_def split: sum.splits option.splits)
  from assms req fm obtain logged where "py_getitem data ''name'' = Inr logged"
    by (auto simp: book_appointment_try_def split: sum.splits)
  then obtain kvs where data: "data = JObj kvs" and nm: "map_of kvs ''name'' = Some logged"
    using py_getitem_dict by blast
  from assms req fm data nm obtain t where
    t: "appointment_time_of e (JObj kvs) = Inr t"
    and cfg: "is_set (GHL_API_KEY cfg)" "is_set (GHL_LOCATION_ID cfg)" "is_set (GHL_CALENDAR_ID cfg)"
    and bc: "book_contact e cfg (JObj kvs) t = (res, calls)"
    by (auto simp: book_appointment_try_def split: sum.splits if_splits)
  from t obtain slot dt secs where
    slot: "map_of kvs ''selectedSlot'' = Some (JStr slot)"
    and dt: "parse_isoformat e slot = Inr dt" "tzinfo dt = None"
    and secs: "zone_offset e ''America/Chicago'' dt = Inr secs"
    and teq: "t = dt\<lparr>tzinfo := Some (Zone ''America/Chicago'' secs)\<rparr>"
    by (auto simp: appointment_time_of_def fromisoformat_def localize_def
             split: sum.splits option.splits json.splits if_splits)
  from bc assms(2) nm obtain name email phone first others where
    "logged = JStr name" "map_of kvs ''phone'' = Some phone" "map_of kvs ''email'' = Some email"
    "split_space name = first # others"
    "book_upsert e cfg name t (contact_payload cfg email phone first others) = (res, calls)"
    by (auto simp: book_contact_def split: sum.splits option.splits json.splits list.splits)
  with req data fm nm slot dt secs teq cfg show ?thesis
    by auto
qed

lemma book_calendar_trace:
  "snd (book_calendar e cfg name t cid)
     = [\<lparr>url = calendar_url, payload = calendar_payload cfg name t cid,
         headers = contact_headers cfg\<rparr>]"
  by (simp add: book_calendar_def Let_def split: sum.splits)

lemma book_calendar_failed:
  assumes "post e calendar_url (calendar_payload cfg name t cid) (contact_headers cfg) = Inr resp"
      and "status_code resp \<notin> {200, 201}"
  shows "fst (book_calendar e cfg name t cid)
           = Inr (JsonResponse 500 (JObj
               [(''error'', JStr ''Failed to book appointment''),
                (''details'', JStr (resp_text resp))]))"
  using assms by (simp add: book_calendar_def Let_def)

lemma book_upsert_failed_call:
  assumes run: "book_upsert e cfg name t body = (res, calls)"
      and c: "c \<in> set calls"
      and resp: "post e (url c) (payload c) (headers c) = Inr resp"
      and st: "status_code resp \<notin> {200, 201}"
  shows "res = Inr (JsonResponse 500 (JObj
            [(''error'', JStr (if url c = contact_url then ''Failed to create contact''
                               else ''Failed to book appointment'')),
             (''details'', JStr (resp_text resp))]))
         \<and> (if url c = contact_url then calls = [c]
            else (\<exists>c0. calls = [c0, c] \<and> url c0 = contact_url \<and> url c = calendar_url))"
proof -
  define c1 where "c1 = \<lparr>url = contact_url, payload = body, headers = contact_headers cfg\<rparr>"
  have c1: "url c1 = contact_url" "payload c1 = body" "headers c1 = contact_headers cfg"
    by (simp_all add: c1_def)
  show ?thesis
  proof (cases "post e contact_url body (contact_headers cfg)")
    case (Inl x)
    with run have "calls = [c1]"
      by (simp add: book_upsert_def c1_def)
    with c have "c = c1" by simp
    with resp Inl c1 show ?thesis by simp
  next
    case (Inr r1)
    show ?thesis
    proof (cases "status_code r1 \<notin> {200, 201}")
      case True
      with run Inr have r: "res = Inr (JsonResponse 500 (JObj
            [(''error'', JStr ''Failed to create contact''),
             (''details'', JStr (resp_text r1))]))" and calls: "calls = [c1]"
        by (simp_all add: book_upsert_def c1_def)
      from calls c have "c = c1" by simp
      with resp Inr c1 have "resp = r1" by simp
      with r calls \<open>c = c1\<close> c1 show ?thesis by simp
    next
      case False
      then have ok: "status_code r1 = 200 \<or> status_code r1 = 201" by simp
      have notc1: "c \<noteq> c1"
      proof
        assume "c = c1"
        with resp Inr c1 have "resp = r1" by simp
        with st False show False by simp
      qed
      show ?thesis
      proof (cases "resp_json r1")
        case (Inl x)
        with run Inr ok have "calls = [c1]"
          by (auto simp: book_upsert_def c1_def)
        with c notc1 show ?thesis by simp
      next
        case body: (Inr contact_data)
        show ?thesis
        proof (cases "contact_id_of contact_data")
          case (Inl x)
          with run Inr ok body have "calls = [c1]"
            by (auto simp: book_upsert_def c1_def)
          with c notc1 show ?thesis by simp
        next
          case cid: (Inr contact_id)
          show ?thesis
          proof (cases "truthy contact_id")
            case False
            with run Inr ok body cid have "calls = [c1]"
              by (auto simp: book_upsert_def c1_def)
            with c notc1 show ?thesis by simp
          next
            case True
            define c2 where "c2 = \<lparr>url = calendar_url,
                 payload = calendar_payload cfg name t contact_id, headers = contact_headers cfg\<rparr>"
            have c2: "url c2 = calendar_url" "payload c2 = calendar_payload cfg name t contact_id"
                 "headers c2 = contact_headers cfg"
              by (simp_all add: c2_def)
            from run Inr ok body cid True
            have eq: "(res, calls) = (fst (book_calendar e cfg name t contact_id),
                        c1 # snd (book_calendar e cfg name t contact_id))"
              by (auto simp: book_upsert_def c1_def split: prod.splits)
            then have calls: "calls = [c1, c2]"
              by (simp add: book_calendar_trace c2_def)
            with c notc1 have "c = c2" by simp
            with resp c2 have "post e calendar_url (calendar_payload cfg name t contact_id)
                                 (contact_headers cfg) = Inr resp"
              by simp
            from book_calendar_failed [OF this st] eq
            have "res = Inr (JsonResponse 500 (JObj
               [(''error'', JStr ''Failed to book appointment''),
                (''details'', JStr (resp_text resp))]))"
              by simp
            with calls \<open>c = c2\<close> c1 c2 urls_differ show ?thesis
              by auto
          qed
        qed
      qed
    qed
  qed
qed

lemma book_upsert_times:
  assumes "book_upsert e cfg name t body = (res, calls)"
  shows "(\<forall>c \<in> set calls. url c = calendar_url \<longrightarrow>
            json_field (payload c) ''startTime'' = Some (JStr (isoformat t)))
       \<and> (\<forall>r. res = Inr r \<longrightarrow> http_status r = 200 \<longrightarrow>
            body_field r ''scheduled_time'' = Some (JStr (isoformat t)))"
proof -
  define c1 where "c1 = \<lparr>url = contact_url, payload = body, headers = contact_headers cfg\<rparr>"
  have early: "calls = [c1] \<Longrightarrow> (\<forall>r. res = Inr r \<longrightarrow> http_status r \<noteq> 200) \<Longrightarrow> ?thesis"
    using urls_differ by (simp add: c1_def)
  show ?thesis
  proof (cases "post e contact_url body (contact_headers cfg)")
    case (Inl x)
    with assms show ?thesis
      by (intro early) (auto simp: book_upsert_def c1_def)
  next
    case (Inr r1)
    show ?thesis
    proof (cases "status_code r1 \<notin> {200, 201}")
      case True
      with assms Inr show ?thesis
        by (intro early) (auto simp: book_upsert_def c1_def)
    next
      case False
      then have ok: "status_code r1 = 200 \<or> status_code r1 = 201" by simp
      show ?thesis
      proof (cases "resp_json r1")
        case (Inl x)
        with assms Inr ok show ?thesis
          by (intro early) (auto simp: book_upsert_def c1_def)
      next
        case body: (Inr contact_data)
        show ?thesis
        proof (cases "contact_id_of contact_data")
          case (Inl x)
          with assms Inr ok body show ?thesis
            by (intro early) (auto simp: book_upsert_def c1_def)
        next
          case cid: (Inr contact_id)
          show ?thesis
          proof (cases "truthy contact_id")
            case False
            with assms Inr ok body cid show ?thesis
              by (intro early) (auto simp: book_upsert_def c1_def)
          next
            case True
            from assms Inr ok body cid True
            have eq: "(res, calls) = (fst (book_calendar e cfg name t contact_id),
                        c1 # snd (book_calendar e cfg name t contact_id))"
              by (auto simp: book_upsert_def c1_def split: prod.splits)
            then have calls: "calls = [c1, \<lparr>url = calendar_url,
                 payload = calendar_payload cfg name t contact_id, headers = contact_headers cfg\<rparr>]"
              by (simp add: book_calendar_trace)
            have res: "\<forall>r. fst (book_calendar e cfg name t contact_id) = Inr r \<longrightarrow> http_status r = 200
                         \<longrightarrow> body_field r ''scheduled_time'' = Some (JStr (isoformat t))"
              by (auto simp: book_calendar_def Let_def split: sum.splits)
            from eq res show ?thesis
              using urls_differ
              by (auto simp: c1_def calendar_payload_def book_calendar_trace)
          qed
        qed
      qed
    qed
  qed
qed

lemma book_upsert_calls:
  "book_upsert e cfg name t body = (res, calls) \<Longrightarrow> calls \<noteq> []"
  by (auto simp: book_upsert_def Let_def split: sum.splits if_splits prod.splits)

lemma book_contact_no_call:
  "book_contact e cfg data t = (res, []) \<Longrightarrow> \<exists>x. res = Inl x"
  by (auto simp: book_contact_def split: sum.splits json.splits list.splits
           dest: book_upsert_calls)

lemma book_calendar_urls:
  "book_calendar e cfg name t cid = (r, cs) \<Longrightarrow> \<forall>c \<in> set cs. url c = calendar_url"
  using book_calendar_trace [of e cfg name t cid] by auto

lemma book_upsert_contact_call:
  assumes "book_upsert e cfg name t body = (res, calls)"
      and "c \<in> set calls" and "url c = contact_url"
  shows "c = \<lparr>url = contact_url, payload = body, headers = contact_headers cfg\<rparr>"
proof -
  have "\<exists>rest. calls = \<lparr>url = contact_url, payload = body, headers = contact_headers cfg\<rparr> # rest
          \<and> (\<forall>c \<in> set rest. url c = calendar_url)"
    using assms(1)
    by (auto simp: book_upsert_def Let_def split: sum.splits if_splits prod.splits
             dest: book_calendar_urls)
  with assms(2,3) urls_differ show ?thesis
    by auto
qed

lemma book_upsert_contact_id:
  assumes run: "book_upsert e cfg name t body = (res, calls)"
      and resp: "post e contact_url body (contact_headers cfg) = Inr resp"
      and st: "status_code resp \<in> {200, 201}"
      and js: "resp_json resp = Inr data"
  shows "case contact_id_of data of
           Inl x \<Rightarrow> res = Inl x
               \<and> calls = [\<lparr>url = contact_url, payload = body, headers = contact_headers cfg\<rparr>]
         | Inr cid \<Rightarrow>
             if truthy cid
             then calls = [\<lparr>url = contact_url, payload = body, headers = contact_headers cfg\<rparr>,
                           \<lparr>url = calendar_url, payload = calendar_payload cfg name t cid,
                            headers = contact_headers cfg\<rparr>]
             else res = Inr (JsonResponse 500 (JObj [(''error'', JStr ''Failed to get contact ID'')]))
               \<and> calls = [\<lparr>url = contact_url, payload = body, headers = contact_headers cfg\<rparr>]"
proof (cases "contact_id_of data")
  case (Inl x)
  with assms show ?thesis
    by (auto simp: book_upsert_def)
next
  case (Inr cid)
  show ?thesis
  proof (cases "truthy cid")
    case False
    with assms Inr show ?thesis
      by (auto simp: book_upsert_def)
  next
    case True
    with assms Inr have "calls = \<lparr>url = contact_url, payload = body, headers = contact_headers cfg\<rparr>
                           # snd (book_calendar e cfg name t cid)"
      by (auto simp: book_upsert_def split: prod.splits)
    with Inr True show ?thesis
      by (simp add: book_calendar_trace)
  qed
qed

lemma contact_id_of_shapes:
  assumes "truthy (id_under kvs) \<or> map_of kvs ''contact'' = None
           \<or> (\<exists>cs. map_of kvs ''contact'' = Some (JObj cs))"
  shows "contact_id_of (JObj kvs) = Inr (two_shapes_id kvs)"
  using assms
  by (auto simp: contact_id_of_def two_shapes_id_def id_under_def split: option.splits)

text \<open>
  A CRM call answered with a status other than 200 and 201 ends the run with
  the response 500 that carries the answer's text.
\<close>

lemma book_failed_call:
  assumes run: "book_appointment e cfg req = (r, calls)"
      and c: "c \<in> set calls"
      and resp: "post e (url c) (payload c) (headers c) = Inr resp"
      and st: "status_code resp \<notin> {200, 201}"
  shows "r = JsonResponse 500 (JObj
            [(''error'', JStr (if url c = contact_url then ''Failed to create contact''
                               else ''Failed to book appointment'')),
             (''details'', JStr (resp_text resp))])
         \<and> (if url c = contact_url then calls = [c]
            else (\<exists>c0. calls = [c0, c] \<and> url c0 = contact_url \<and> url c = calendar_url))"
proof -
  obtain res where tr: "book_appointment_try e cfg req = (res, calls)"
    and r: "r = (case res of Inl x \<Rightarrow> JsonResponse 500 (JObj [(''error'', JStr (str_exn x))])
                 | Inr ok \<Rightarrow> ok)"
    using run by (auto simp: book_appointment_def split: prod.splits sum.splits)
  from c have "calls \<noteq> []" by auto
  from book_reaches_upsert [OF tr this] obtain name t body where
    "book_upsert e cfg name t body = (res, calls)"
    by blast
  then show ?thesis
    using book_upsert_failed_call [of e cfg name t body res calls c resp] c resp r st
    by simp
qed

text \<open>The same for the one call of the voice handler, which passes the status on.\<close>

lemma voice_failed_call:
  assumes run: "generate_voice e cfg req = (r, calls)"
      and c: "c \<in> set calls"
      and resp: "post e (url c) (payload c) (headers c) = Inr resp"
      and st: "status_code resp \<noteq> 200"
  shows "r = JsonResponse (status_code resp) (JObj
            [(''error'', JStr ''Failed to generate voice''),
             (''details'', JStr (resp_text resp))])
         \<and> calls = [c]"
proof -
  obtain res where tr: "generate_voice_try e cfg req = (res, calls)"
    and r: "r = (case res of Inl x \<Rightarrow> JsonResponse 500 (JObj [(''error'', JStr (str_exn x))])
                 | Inr ok \<Rightarrow> ok)"
    using run by (auto simp: generate_voice_def split: prod.splits sum.splits)
  from c have ne: "calls \<noteq> []" by auto
  from tr ne obtain data where req: "req = Inr data"
    by (cases req) (auto simp: generate_voice_try_def)
  from tr ne req obtain text_value where
    tv: "truthy data" "py_contains ''text'' data = Inr True" "py_getitem data ''text'' = Inr text_value"
        "slice_error text_value = None" "is_set (ELEVENLABS_API_KEY cfg)"
        "is_set (ELEVENLABS_VOICE_ID cfg)"
    by (auto simp: generate_voice_try_def Let_def split: sum.splits bool.splits option.splits if_splits)
  define call where "call = \<lparr>url = ''https://api.elevenlabs.io/v1/text-to-speech/''
                                     @ str_of_config (ELEVENLABS_VOICE_ID cfg),
       payload = JObj [(''text'', text_value), (''model_id'', JStr ''eleven_monolingual_v1''),
                       (''voice_settings'', JObj [(''stability'', JFloat 0.5),
                                                  (''similarity_boost'', JFloat 0.5)])],
       headers = [(''Accept'', ''audio/mpeg''), (''Content-Type'', ''application/json''),
                  (''xi-api-key'', str_of_config (ELEVENLABS_API_KEY cfg))]\<rparr>"
  from tr req tv have calls: "calls = [call]"
    by (auto simp: generate_voice_try_def Let_def call_def split: sum.splits if_splits)
  with c have ceq: "c = call" by simp
  with resp have "post e (url call) (payload call) (headers call) = Inr resp" by simp
  with tr req tv st have "res = Inr (JsonResponse (status_code resp) (JObj
            [(''error'', JStr ''Failed to generate voice''),
             (''details'', JStr (resp_text resp))]))"
    by (auto simp: generate_voice_try_def Let_def call_def)
  with r calls ceq show ?thesis by simp
qed

section \<open>Validation\<close>

lemma first_missing_dict:
  "first_missing fs (JObj kvs) =
     Inr (case filter (\<lambda>k. map_of kvs k = None) fs of [] \<Rightarrow> None | g # rest \<Rightarrow> Some g)"
proof (induction fs)
  case Nil
  show ?case by simp
next
  case (Cons a fs)
  show ?case
  proof (cases "map_of kvs a")
    case None
    then show ?thesis by simp
  next
    case (Some v)
    with Cons show ?thesis by simp
  qed
qed

lemma first_missing_container:
  assumes "\<And>k. \<exists>b. py_contains k v = Inr b"
  shows "first_missing fs v
           = Inr (case filter (\<lambda>f. py_contains f v = Inr False) fs of
                    [] \<Rightarrow> None | g # rest \<Rightarrow> Some g)"
proof (induction fs)
  case Nil
  show ?case by simp
next
  case (Cons a fs)
  from assms obtain b where b: "py_contains a v = Inr b" by blast
  with Cons show ?case by (cases b) simp_all
qed

lemma validated:
  assumes "map_of kvs ''name'' = Some n" and "map_of kvs ''phone'' = Some p"
      and "map_of kvs ''email'' = Some m" and "map_of kvs ''selectedSlot'' = Some slot"
  shows "first_missing required_fields (JObj kvs) = Inr None"
  using assms by (simp add: required_fields_def)

lemma book_time_failure:
  assumes "map_of kvs ''name'' = Some n" and "map_of kvs ''phone'' = Some p"
      and "map_of kvs ''email'' = Some m" and "map_of kvs ''selectedSlot'' = Some slot"
      and "appointment_time_of e (JObj kvs) = Inl x"
  shows "book_appointment e cfg (Inr (JObj kvs))
           = (JsonResponse 400 (JObj
                [(''error'', JStr (''Invalid datetime format: '' @ str_exn x))]), [])"
  using assms
  by (simp add: book_appointment_def book_appointment_try_def validated [OF assms(1-4)])

text \<open>
  C5. A \<^verbatim>\<open>/book\<close> request whose JSON object lacks one of the four required
  fields gets the response 400, whose message names the first of the missing
  fields (in the order name, phone, email, selectedSlot), and no outbound call
  is made.
\<close>

theorem book_missing_field:
  assumes "f \<in> set required_fields" and "map_of kvs f = None"
  shows "\<exists>g rest. filter (\<lambda>k. map_of kvs k = None) required_fields = g # rest
           \<and> book_appointment e cfg (Inr (JObj kvs))
               = (JsonResponse 400
                    (JObj [(''error'', JStr (''Missing '' @ quoted g @ '' field''))]), [])"
proof -
  from assms have "f \<in> set (filter (\<lambda>k. map_of kvs k = None) required_fields)"
    by simp
  then obtain g rest where g: "filter (\<lambda>k. map_of kvs k = None) required_fields = g # rest"
    by (cases "filter (\<lambda>k. map_of kvs k = None) required_fields") auto
  then have "first_missing required_fields (JObj kvs) = Inr (Some g)"
    by (simp add: first_missing_dict)
  with g show ?thesis
    by (simp add: book_appointment_def book_appointment_try_def)
qed

theorem book_missing_field_witness:
  "''phone'' \<in> set required_fields
   \<and> map_of [(''name'', JStr ''Jane Doe''), (''selectedSlot'', JStr ''2023-04-25T14:00:00'')]
        ''phone'' = None
   \<and> book_appointment (python_env (crm created booked)) demo_config
        (Inr (JObj [(''name'', JStr ''Jane Doe''), (''selectedSlot'', JStr ''2023-04-25T14:00:00'')]))
      = (JsonResponse 400 (JObj [(''error'', JStr ''Missing 'phone' field'')]), [])"
  using book_missing_field [of "''phone''"
      "[(''name'', JStr ''Jane Doe''), (''selectedSlot'', JStr ''2023-04-25T14:00:00'')]"
      "python_env (crm created booked)" demo_config]
  by (simp add: required_fields_def quoted_def)

section \<open>Upstream failures\<close>

text \<open>
  C1. When a CRM call of a \<^verbatim>\<open>/book\<close> run is answered with a status outside
  200 to 299, the response is 500 and its \<^verbatim>\<open>details\<close> is the upstream body
  as received; the failing call is the last call of the run. A failing contact
  call is the only call (the appointment endpoint is not called); a failing
  appointment call follows the contact call and nothing follows it.
\<close>

theorem book_upstream_failure:
  assumes run: "book_appointment e cfg req = (r, calls)"
      and c: "c \<in> set calls"
      and resp: "post e (url c) (payload c) (headers c) = Inr resp"
      and st: "\<not> (200 \<le> status_code resp \<and> status_code resp < 300)"
  shows "r = JsonResponse 500 (JObj
            [(''error'', JStr (if url c = contact_url then ''Failed to create contact''
                               else ''Failed to book appointment'')),
             (''details'', JStr (resp_text resp))])
         \<and> (if url c = contact_url then calls = [c]
            else (\<exists>c0. calls = [c0, c] \<and> url c0 = contact_url \<and> url c = calendar_url))"
proof -
  from st have "status_code resp \<notin> {200, 201}" by auto
  from book_failed_call [OF run c resp this] show ?thesis .
qed

theorem book_upstream_failure_witness:
  "book_appointment
     (python_env (crm (upstream 422 ''invalid email'' (Inr (JObj [])))
                      (upstream 200 ''{}'' (Inr (JObj [])))))
     demo_config
     (Inr (booking (JStr ''Jane Doe Smith'') (JStr ''5550100'') (JStr ''jane'')
            (JStr ''2023-04-25T14:00:00'')))
   = (JsonResponse 500 (JObj [(''error'', JStr ''Failed to create contact''),
                              (''details'', JStr ''invalid email'')]),
      [\<lparr>url = contact_url,
        payload = contact_payload demo_config (JStr ''jane'') (JStr ''5550100'') ''Jane''
                    [''Doe'', ''Smith''],
        headers = contact_headers demo_config\<rparr>])"
proof -
  let ?e = "python_env (crm (upstream 422 ''invalid email'' (Inr (JObj [])))
                            (upstream 200 ''{}'' (Inr (JObj []))))"
  let ?req = "Inr (booking (JStr ''Jane Doe Smith'') (JStr ''5550100'') (JStr ''jane'')
                     (JStr ''2023-04-25T14:00:00''))"
  let ?c = "\<lparr>url = contact_url,
        payload = contact_payload demo_config (JStr ''jane'') (JStr ''5550100'') ''Jane''
                    [''Doe'', ''Smith''],
        headers = contact_headers demo_config\<rparr>"
  have calls: "snd (book_appointment ?e demo_config ?req) = [?c]"
    unfolding demo_booking by (simp add: crm_defs)
  have "book_appointment ?e demo_config ?req
          = (fst (book_appointment ?e demo_config ?req), [?c])"
    using calls by (metis prod.collapse)
  from book_upstream_failure [OF this, of ?c "upstream 422 ''invalid email'' (Inr (JObj []))"]
  have "fst (book_appointment ?e demo_config ?req)
          = JsonResponse 500 (JObj [(''error'', JStr ''Failed to create contact''),
                              (''details'', JStr ''invalid email'')])"
    by (simp add: python_env_def crm_def upstream_def)
  with calls show ?thesis
    by (metis prod.collapse)
qed

section \<open>Time normalisation\<close>

text \<open>
  C2. For \<^verbatim>\<open>selectedSlot = "2023-04-25T14:00:00"\<close>, on the reference library: the
  normalised time is 14:00:00 on 2023-04-25 with the \<^verbatim>\<open>tzinfo\<close> of America/Chicago
  at UTC-5 (daylight time is in force on that date); the \<^verbatim>\<open>startTime\<close> of every
  appointment call and the \<^verbatim>\<open>scheduled_time\<close> of a 200 response are the text
  \<^verbatim>\<open>2023-04-25T14:00:00-05:00\<close>, which carries the offset.
\<close>

theorem slot_normalised_central:
  assumes slot: "map_of kvs ''selectedSlot'' = Some (JStr ''2023-04-25T14:00:00'')"
      and run: "book_appointment (python_env net) cfg (Inr (JObj kvs)) = (r, calls)"
  shows "appointment_time_of (python_env net) (JObj kvs)
           = Inr \<lparr>year = 2023, month = 4, day = 25, hour = 14, minute = 0, second = 0,
                  microsecond = 0, tzinfo = Some (Zone ''America/Chicago'' (- 18000))\<rparr>
       \<and> (\<forall>c \<in> set calls. url c = calendar_url \<longrightarrow>
            json_field (payload c) ''startTime'' = Some (JStr ''2023-04-25T14:00:00-05:00''))
       \<and> (http_status r = 200 \<longrightarrow>
            body_field r ''scheduled_time'' = Some (JStr ''2023-04-25T14:00:00-05:00''))"
proof -
  let ?t = "\<lparr>year = 2023, month = 4, day = 25, hour = 14, minute = 0, second = 0,
                  microsecond = 0, tzinfo = Some (Zone ''America/Chicago'' (- 18000))\<rparr>"
  have t: "appointment_time_of (python_env net) (JObj kvs) = Inr ?t"
    using slot
    by (simp add: appointment_time_of_def fromisoformat_def localize_def python_env_def
          tz_database_def iso_grammar_slot america_chicago_slot)
  obtain res where tr: "book_appointment_try (python_env net) cfg (Inr (JObj kvs)) = (res, calls)"
    and r: "r = (case res of Inl x \<Rightarrow> JsonResponse 500 (JObj [(''error'', JStr (str_exn x))])
                 | Inr ok \<Rightarrow> ok)"
    using run by (auto simp: book_appointment_def split: prod.splits sum.splits)
  show ?thesis
  proof (cases "calls = []")
    case True
    with tr t slot have "http_status r \<noteq> 200"
      unfolding r
      by (auto simp: book_appointment_try_def split: sum.splits option.splits if_splits
               dest: book_contact_no_call)
    with t True show ?thesis by simp
  next
    case False
    from book_reaches_upsert [OF tr False] obtain name t' body where
      up: "book_upsert (python_env net) cfg name t' body = (res, calls)"
      and "appointment_time_of (python_env net) (JObj kvs) = Inr t'"
      by (auto simp: appointment_time_of_def fromisoformat_def localize_def)
    with t have "t' = ?t" by simp
    with book_upsert_times [OF up] r t show ?thesis
      by (auto simp: isoformat_slot split: sum.splits)
  qed
qed

theorem slot_normalised_central_witness:
  "appointment_time_of (python_env (crm created booked))
      (booking (JStr ''Jane Doe Smith'') (JStr ''5550100'') (JStr ''jane@example.com'')
         (JStr ''2023-04-25T14:00:00''))
     = Inr \<lparr>year = 2023, month = 4, day = 25, hour = 14, minute = 0, second = 0,
            microsecond = 0, tzinfo = Some (Zone ''America/Chicago'' (- 18000))\<rparr>
   \<and> map (\<lambda>c. json_field (payload c) ''startTime'')
        (snd (book_appointment (python_env (crm created booked)) demo_config
           (Inr (booking (JStr ''Jane Doe Smith'') (JStr ''5550100'') (JStr ''jane@example.com'')
              (JStr ''2023-04-25T14:00:00'')))))
     = [None, Some (JStr ''2023-04-25T14:00:00-05:00'')]
   \<and> body_field
        (fst (book_appointment (python_env (crm created booked)) demo_config
           (Inr (booking (JStr ''Jane Doe Smith'') (JStr ''5550100'') (JStr ''jane@example.com'')
              (JStr ''2023-04-25T14:00:00'')))))
        ''scheduled_time''
     = Some (JStr ''2023-04-25T14:00:00-05:00'')"
  using slot_normalised_central [of
    "[(''name'', JStr ''Jane Doe Smith''), (''phone'', JStr ''5550100''),
      (''email'', JStr ''jane@example.com''), (''selectedSlot'', JStr ''2023-04-25T14:00:00'')]"
    "crm created booked" demo_config
    "fst (book_appointment (python_env (crm created booked)) demo_config
           (Inr (booking (JStr ''Jane Doe Smith'') (JStr ''5550100'') (JStr ''jane@example.com'')
              (JStr ''2023-04-25T14:00:00''))))"
    "snd (book_appointment (python_env (crm created booked)) demo_config
           (Inr (booking (JStr ''Jane Doe Smith'') (JStr ''5550100'') (JStr ''jane@example.com'')
              (JStr ''2023-04-25T14:00:00''))))"]
  by (simp add: demo_booked booking_def [symmetric])

text \<open>
  C3, as the code has it. A \<^verbatim>\<open>selectedSlot\<close> that the parser reads into a
  \<^verbatim>\<open>datetime\<close> with \<^verbatim>\<open>tzinfo\<close> set (the string carries a UTC offset) is not
  localised: \<^verbatim>\<open>localize\<close> refuses it, and the response is 400 with the message
  of that \<^verbatim>\<open>ValueError\<close>; no outbound call is made. The offset is not overwritten.
\<close>

theorem offset_slot_rejected:
  assumes "map_of kvs ''name'' = Some n" and "map_of kvs ''phone'' = Some p"
      and "map_of kvs ''email'' = Some m" and "map_of kvs ''selectedSlot'' = Some (JStr s)"
      and "parse_isoformat e s = Inr dt" and "tzinfo dt \<noteq> None"
  shows "appointment_time_of e (JObj kvs)
           = Inl (ValueError ''Not naive datetime (tzinfo is already set)'')
       \<and> book_appointment e cfg (Inr (JObj kvs))
           = (JsonResponse 400 (JObj
                [(''error'', JStr (''Invalid datetime format: ''
                                   @ ''Not naive datetime (tzinfo is already set)''))]), [])"
proof -
  from assms(4-6) have "appointment_time_of e (JObj kvs)
           = Inl (ValueError ''Not naive datetime (tzinfo is already set)'')"
    by (auto simp: appointment_time_of_def fromisoformat_def localize_def)
  with book_time_failure [OF assms(1-4) this, of cfg] show ?thesis
    by simp
qed

text \<open>
  The claim C3 as stated (normalisation succeeds and binds the naive fields to
  America/Chicago) fails at \<^verbatim>\<open>selectedSlot = "2023-04-25T14:00:00+02:00"\<close>: the
  response is the 400 of the inner \<^verbatim>\<open>except\<close>.
\<close>

theorem offset_slot_counterexample:
  "book_appointment (python_env (crm created booked)) demo_config
     (Inr (booking (JStr ''Jane Doe Smith'') (JStr ''5550100'') (JStr ''jane@example.com'')
        (JStr ''2023-04-25T14:00:00+02:00'')))
   = (JsonResponse 400 (JObj
        [(''error'', JStr ''Invalid datetime format: Not naive datetime (tzinfo is already set)'')]),
      [])"
  by (simp add: book_appointment_def book_appointment_try_def required_fields_def booking_def
        appointment_time_of_def fromisoformat_def localize_def python_env_def iso_grammar_offset)

theorem offset_slot_rejected_witness:
  "parse_isoformat (python_env (crm created booked)) ''2023-04-25T14:00:00-05:00''
     = Inr \<lparr>year = 2023, month = 4, day = 25, hour = 14, minute = 0, second = 0,
            microsecond = 0, tzinfo = Some (FixedOffset (- 18000000000))\<rparr>
   \<and> appointment_time_of (python_env (crm created booked))
        (booking (JStr ''Jane Doe Smith'') (JStr ''5550100'') (JStr ''jane@example.com'')
           (JStr ''2023-04-25T14:00:00-05:00''))
     = Inl (ValueError ''Not naive datetime (tzinfo is already set)'')
   \<and> book_appointment (python_env (crm created booked)) demo_config
        (Inr (booking (JStr ''Jane Doe Smith'') (JStr ''5550100'') (JStr ''jane@example.com'')
           (JStr ''2023-04-25T14:00:00-05:00'')))
     = (JsonResponse 400 (JObj
          [(''error'', JStr ''Invalid datetime format: Not naive datetime (tzinfo is already set)'')]),
        [])"
proof -
  have p: "parse_isoformat (python_env (crm created booked)) ''2023-04-25T14:00:00-05:00''
     = Inr \<lparr>year = 2023, month = 4, day = 25, hour = 14, minute = 0, second = 0,
            microsecond = 0, tzinfo = Some (FixedOffset (- 18000000000))\<rparr>"
    by (simp add: python_env_def parser_defs)
  from offset_slot_rejected [of
    "[(''name'', JStr ''Jane Doe Smith''), (''phone'', JStr ''5550100''),
      (''email'', JStr ''jane@example.com''), (''selectedSlot'', JStr ''2023-04-25T14:00:00-05:00'')]"
    "JStr ''Jane Doe Smith''" "JStr ''5550100''" "JStr ''jane@example.com''"
    "''2023-04-25T14:00:00-05:00''" "python_env (crm created booked)" _ demo_config, OF _ _ _ _ p]
  show ?thesis
    using p by (simp add: booking_def)
qed

text \<open>
  C6. When \<^verbatim>\<open>datetime.fromisoformat\<close> raises on the \<^verbatim>\<open>selectedSlot\<close> value of a
  validated request, the response is 400, its message ends with the text of
  the exception raised, and no outbound call is made: nothing is put in the
  place of the value that did not parse.
\<close>

theorem unparsable_slot_rejected:
  assumes "map_of kvs ''name'' = Some n" and "map_of kvs ''phone'' = Some p"
      and "map_of kvs ''email'' = Some m" and "map_of kvs ''selectedSlot'' = Some slot"
      and "fromisoformat e slot = Inl x"
  shows "book_appointment e cfg (Inr (JObj kvs))
           = (JsonResponse 400 (JObj
                [(''error'', JStr (''Invalid datetime format: '' @ str_exn x))]), [])"
proof -
  from assms(4,5) have "appointment_time_of e (JObj kvs) = Inl x"
    by (simp add: appointment_time_of_def)
  from book_time_failure [OF assms(1-4) this] show ?thesis .
qed

theorem unparsable_slot_rejected_witness:
  "book_appointment (python_env (crm created booked)) demo_config
     (Inr (booking (JStr ''Jane Doe Smith'') (JStr ''5550100'') (JStr ''jane@example.com'')
        (JStr ''not-a-date'')))
   = (JsonResponse 400 (JObj
        [(''error'', JStr (''Invalid datetime format: Invalid isoformat string: ''
                           @ quoted ''not-a-date''))]),
      [])
   \<and> book_appointment (python_env (crm created booked)) demo_config
     (Inr (booking (JStr ''Jane Doe Smith'') (JStr ''5550100'') (JStr ''jane@example.com'')
        (JStr ''2023-13-40T99:00:00'')))
   = (JsonResponse 400 (JObj
        [(''error'', JStr ''Invalid datetime format: month must be in 1..12'')]),
      [])
   \<and> book_appointment (python_env (crm created booked)) demo_config
     (Inr (booking (JStr ''Jane Doe Smith'') (JStr ''5550100'') (JStr ''jane@example.com'')
        (JStr ''2023-04-25T14:00:00xyz'')))
   = (JsonResponse 400 (JObj
        [(''error'', JStr (''Invalid datetime format: Invalid isoformat string: ''
                           @ quoted ''2023-04-25T14:00:00xyz''))]),
      [])"
proof -
  let ?e = "python_env (crm created booked)"
  have a: "fromisoformat ?e (JStr ''not-a-date'')
             = Inl (ValueError (''Invalid isoformat string: '' @ quoted ''not-a-date''))"
    and b: "fromisoformat ?e (JStr ''2023-13-40T99:00:00'')
             = Inl (ValueError ''month must be in 1..12'')"
    and c: "fromisoformat ?e (JStr ''2023-04-25T14:00:00xyz'')
             = Inl (ValueError (''Invalid isoformat string: '' @ quoted ''2023-04-25T14:00:00xyz''))"
    by (simp_all add: fromisoformat_def python_env_def iso_grammar_not_a_date
          iso_grammar_out_of_range iso_grammar_trailing)
  have "book_appointment ?e demo_config
     (Inr (booking (JStr ''Jane Doe Smith'') (JStr ''5550100'') (JStr ''jane@example.com'')
        (JStr ''not-a-date'')))
   = (JsonResponse 400 (JObj [(''error'', JStr (''Invalid datetime format: Invalid isoformat string: '' @ quoted ''not-a-date''))]), [])"
    using unparsable_slot_rejected [where e = ?e and cfg = demo_config
            and n = "JStr ''Jane Doe Smith''" and p = "JStr ''5550100''"
            and m = "JStr ''jane@example.com''" and slot = "JStr ''not-a-date''"
            and kvs = "[(''name'', JStr ''Jane Doe Smith''), (''phone'', JStr ''5550100''),
                        (''email'', JStr ''jane@example.com''),
                        (''selectedSlot'', JStr ''not-a-date'')]", OF _ _ _ _ a]
    by (simp add: booking_def)
  moreover have "book_appointment ?e demo_config
     (Inr (booking (JStr ''Jane Doe Smith'') (JStr ''5550100'') (JStr ''jane@example.com'')
        (JStr ''2023-13-40T99:00:00'')))
   = (JsonResponse 400 (JObj [(''error'', JStr (''Invalid datetime format: month must be in 1..12''))]), [])"
    using unparsable_slot_rejected [where e = ?e and cfg = demo_config
            and n = "JStr ''Jane Doe Smith''" and p = "JStr ''5550100''"
            and m = "JStr ''jane@example.com''" and slot = "JStr ''2023-13-40T99:00:00''"
            and kvs = "[(''name'', JStr ''Jane Doe Smith''), (''phone'', JStr ''5550100''),
                        (''email'', JStr ''jane@example.com''),
                        (''selectedSlot'', JStr ''2023-13-40T99:00:00'')]", OF _ _ _ _ b]
    by (simp add: booking_def)
  moreover have "book_appointment ?e demo_config
     (Inr (booking (JStr ''Jane Doe Smith'') (JStr ''5550100'') (JStr ''jane@example.com'')
        (JStr ''2023-04-25T14:00:00xyz'')))
   = (JsonResponse 400 (JObj [(''error'', JStr (''Invalid datetime format: Invalid isoformat string: '' @ quoted ''2023-04-25T14:00:00xyz''))]), [])"
    using unparsable_slot_rejected [where e = ?e and cfg = demo_config
            and n = "JStr ''Jane Doe Smith''" and p = "JStr ''5550100''"
            and m = "JStr ''jane@example.com''" and slot = "JStr ''2023-04-25T14:00:00xyz''"
            and kvs = "[(''name'', JStr ''Jane Doe Smith''), (''phone'', JStr ''5550100''),
                        (''email'', JStr ''jane@example.com''),
                        (''selectedSlot'', JStr ''2023-04-25T14:00:00xyz'')]", OF _ _ _ _ c]
    by (simp add: booking_def)
  ultimately show ?thesis by simp
qed

section \<open>What validation guarantees\<close>

text \<open>
  C7, as the code has it. A \<^verbatim>\<open>/book\<close> run that makes an outbound call had a JSON
  object as its body, with all four required keys present, and with a \<^verbatim>\<open>str\<close>
  under \<^verbatim>\<open>name\<close> and under \<^verbatim>\<open>selectedSlot\<close>. The values of \<^verbatim>\<open>phone\<close> and
  \<^verbatim>\<open>email\<close> are not constrained: validation tests the presence of the key only.
\<close>

theorem network_effect_requires_fields:
  assumes "book_appointment e cfg req = (r, calls)" and "calls \<noteq> []"
  shows "\<exists>kvs name phone email slot.
           req = Inr (JObj kvs)
         \<and> map_of kvs ''name'' = Some (JStr name)
         \<and> map_of kvs ''phone'' = Some phone
         \<and> map_of kvs ''email'' = Some email
         \<and> map_of kvs ''selectedSlot'' = Some (JStr slot)"
proof -
  obtain res where tr: "book_appointment_try e cfg req = (res, calls)"
    using assms(1) by (auto simp: book_appointment_def split: prod.splits sum.splits)
  from book_reaches_upsert [OF tr assms(2)] show ?thesis
    by blast
qed

text \<open>
  The claim C7 as stated (a field present with the value null is rejected
  before any external call) fails at \<^verbatim>\<open>phone = null\<close>: both CRM calls are made,
  and the contact payload carries \<^verbatim>\<open>"phone": null\<close>.
\<close>

theorem null_phone_counterexample:
  "snd (book_appointment (python_env (crm created booked)) demo_config
     (Inr (booking (JStr ''Jane Doe Smith'') JNull (JStr ''jane@example.com'')
        (JStr ''2023-04-25T14:00:00''))))
   = [\<lparr>url = contact_url,
        payload = JObj [(''email'', JStr ''jane@example.com''), (''phone'', JNull),
                        (''firstName'', JStr ''Jane''), (''lastName'', JStr ''Doe Smith''),
                        (''locationId'', JStr ''loc-1'')],
        headers = [(''Authorization'', ''Bearer ghl-key''), (''Content-Type'', ''application/json'')]\<rparr>,
       \<lparr>url = calendar_url,
        payload = JObj [(''calendarId'', JStr ''cal-1''), (''contactId'', JStr ''c456''),
                        (''startTime'', JStr ''2023-04-25T14:00:00-05:00''),
                        (''title'', JStr ''Appointment with Jane Doe Smith''),
                        (''description'', JStr ''Appointment booked via VAPPI Voice Bot''),
                        (''locationId'', JStr ''loc-1'')],
        headers = [(''Authorization'', ''Bearer ghl-key''), (''Content-Type'', ''application/json'')]\<rparr>]"
  by (simp add: demo_booked)

theorem network_effect_requires_fields_witness:
  "snd (book_appointment (python_env (crm created booked)) demo_config
     (Inr (booking (JStr ''Jane Doe Smith'') (JStr ''5550100'') (JStr ''jane@example.com'')
        (JStr ''2023-04-25T14:00:00'')))) \<noteq> []
   \<and> (\<exists>kvs name phone email slot.
           Inr (booking (JStr ''Jane Doe Smith'') (JStr ''5550100'') (JStr ''jane@example.com'')
                  (JStr ''2023-04-25T14:00:00'')) = (Inr (JObj kvs) :: exn + json)
         \<and> map_of kvs ''name'' = Some (JStr name)
         \<and> map_of kvs ''phone'' = Some phone
         \<and> map_of kvs ''email'' = Some email
         \<and> map_of kvs ''selectedSlot'' = Some (JStr slot))"
proof -
  let ?run = "book_appointment (python_env (crm created booked)) demo_config
     (Inr (booking (JStr ''Jane Doe Smith'') (JStr ''5550100'') (JStr ''jane@example.com'')
        (JStr ''2023-04-25T14:00:00'')))"
  have ne: "snd ?run \<noteq> []"
    by (simp add: demo_booked)
  have "?run = (fst ?run, snd ?run)" by simp
  from network_effect_requires_fields [OF this ne] ne show ?thesis
    by blast
qed

section \<open>The name in the contact payload\<close>

text \<open>
  C9, as the code has it. In the contact call of a \<^verbatim>\<open>/book\<close> run, \<^verbatim>\<open>firstName\<close> is
  the part of \<^verbatim>\<open>name\<close> before its first space character and \<^verbatim>\<open>lastName\<close> is
  the part after that space (empty when \<^verbatim>\<open>name\<close> has no space). When \<^verbatim>\<open>name\<close> is
  made of words without a space in them, joined by single spaces, these are
  the first word and the other words joined by single spaces.
\<close>

theorem contact_name_split:
  assumes run: "book_appointment e cfg (Inr data) = (r, calls)"
      and c: "c \<in> set calls" "url c = contact_url"
  shows "\<exists>name. py_getitem data ''name'' = Inr (JStr name)
         \<and> json_field (payload c) ''firstName''
             = Some (JStr (takeWhile (\<lambda>x. x \<noteq> CHR '' '') name))
         \<and> json_field (payload c) ''lastName''
             = Some (JStr (drop 1 (dropWhile (\<lambda>x. x \<noteq> CHR '' '') name)))
         \<and> (\<forall>ws. ws \<noteq> [] \<and> (\<forall>w \<in> set ws. CHR '' '' \<notin> set w) \<and> name = join_space ws
               \<longrightarrow> json_field (payload c) ''firstName'' = Some (JStr (hd ws))
                 \<and> json_field (payload c) ''lastName'' = Some (JStr (join_space (tl ws))))"
proof -
  obtain res where tr: "book_appointment_try e cfg (Inr data) = (res, calls)"
    using run by (auto simp: book_appointment_def split: prod.splits sum.splits)
  from c have "calls \<noteq> []" by auto
  from book_reaches_upsert [OF tr this] obtain kvs name email phone t first others where
    data: "data = JObj kvs" "map_of kvs ''name'' = Some (JStr name)"
    and sp: "split_space name = first # others"
    and up: "book_upsert e cfg name t (contact_payload cfg email phone first others) = (res, calls)"
    by blast
  from book_upsert_contact_call [OF up c]
  have pl: "payload c = contact_payload cfg email phone first others"
    by simp
  have first: "first = takeWhile (\<lambda>x. x \<noteq> CHR '' '') name"
    using sp split_space_first [of name] by simp
  have last: "(if length (first # others) > 1 then join_space others else [])
                = drop 1 (dropWhile (\<lambda>x. x \<noteq> CHR '' '') name)"
    by (rule last_name_after_first_space [OF sp])
  have fields: "json_field (payload c) ''firstName'' = Some (JStr first)"
    "json_field (payload c) ''lastName''
       = Some (JStr (if length (first # others) > 1 then join_space others else []))"
    by (simp_all add: pl contact_payload_def)
  have tokens: "json_field (payload c) ''firstName'' = Some (JStr (hd ws))
                 \<and> json_field (payload c) ''lastName'' = Some (JStr (join_space (tl ws)))"
    if ws: "ws \<noteq> []" "\<forall>w \<in> set ws. CHR '' '' \<notin> set w" "name = join_space ws" for ws
  proof -
    from ws sp have "ws = first # others"
      using split_join_space [of ws] by simp
    then show ?thesis
      using fields by (cases others) simp_all
  qed
  from data first last fields tokens show ?thesis
    by (intro exI [of _ name]) auto
qed

theorem contact_name_split_witness:
  "json_field (payload (hd (snd (book_appointment (python_env (crm created booked)) demo_config
      (Inr (booking (JStr ''Jane Doe Smith'') (JStr ''5550100'') (JStr ''jane@example.com'')
         (JStr ''2023-04-25T14:00:00''))))))) ''firstName'' = Some (JStr ''Jane'')
   \<and> json_field (payload (hd (snd (book_appointment (python_env (crm created booked)) demo_config
      (Inr (booking (JStr ''Jane Doe Smith'') (JStr ''5550100'') (JStr ''jane@example.com'')
         (JStr ''2023-04-25T14:00:00''))))))) ''lastName'' = Some (JStr ''Doe Smith'')
   \<and> json_field (payload (hd (snd (book_appointment (python_env (crm created booked)) demo_config
      (Inr (booking (JStr ''Prince'') (JStr ''5550100'') (JStr ''jane@example.com'')
         (JStr ''2023-04-25T14:00:00''))))))) ''firstName'' = Some (JStr ''Prince'')
   \<and> json_field (payload (hd (snd (book_appointment (python_env (crm created booked)) demo_config
      (Inr (booking (JStr ''Prince'') (JStr ''5550100'') (JStr ''jane@example.com'')
         (JStr ''2023-04-25T14:00:00''))))))) ''lastName'' = Some (JStr [])"
proof -
  let ?e = "python_env (crm created booked)"
  let ?jane = "booking (JStr ''Jane Doe Smith'') (JStr ''5550100'') (JStr ''jane@example.com'')
         (JStr ''2023-04-25T14:00:00'')"
  let ?prince = "booking (JStr ''Prince'') (JStr ''5550100'') (JStr ''jane@example.com'')
         (JStr ''2023-04-25T14:00:00'')"
  have j: "split_space ''Jane Doe Smith'' = [''Jane'', ''Doe'', ''Smith'']"
    and p: "split_space ''Prince'' = [''Prince'']"
    by simp_all
  note cj = demo_booked_calls [OF j, of "JStr ''5550100''" "JStr ''jane@example.com''"]
  note cp = demo_booked_calls [OF p, of "JStr ''5550100''" "JStr ''jane@example.com''"]
  have "book_appointment ?e demo_config (Inr ?jane)
          = (fst (book_appointment ?e demo_config (Inr ?jane)),
             snd (book_appointment ?e demo_config (Inr ?jane)))"
    by simp
  from contact_name_split [OF this, of "hd (snd (book_appointment ?e demo_config (Inr ?jane)))"]
  have jane: "json_field (payload (hd (snd (book_appointment ?e demo_config (Inr ?jane))))) ''firstName''
                = Some (JStr ''Jane'')
            \<and> json_field (payload (hd (snd (book_appointment ?e demo_config (Inr ?jane))))) ''lastName''
                = Some (JStr ''Doe Smith'')"
    unfolding cj by (simp add: booking_def)
  have "book_appointment ?e demo_config (Inr ?prince)
          = (fst (book_appointment ?e demo_config (Inr ?prince)),
             snd (book_appointment ?e demo_config (Inr ?prince)))"
    by simp
  from contact_name_split [OF this, of "hd (snd (book_appointment ?e demo_config (Inr ?prince)))"]
  have prince: "json_field (payload (hd (snd (book_appointment ?e demo_config (Inr ?prince))))) ''firstName''
                = Some (JStr ''Prince'')
            \<and> json_field (payload (hd (snd (book_appointment ?e demo_config (Inr ?prince))))) ''lastName''
                = Some (JStr [])"
    unfolding cp by (simp add: booking_def)
  from jane prince show ?thesis by simp
qed

text \<open>
  The claim C9 as stated (the tokens are delimited by whitespace, and the
  remaining tokens are joined by a single space) fails at a name with a tab,
  \<^verbatim>\<open>"Jane\tDoe"\<close>, which is not split at all, and at a name with two spaces,
  \<^verbatim>\<open>"Jane  Doe"\<close>, whose \<^verbatim>\<open>lastName\<close> keeps the second space.
\<close>

theorem tab_name_counterexample:
  "json_field (payload (hd (snd (book_appointment (python_env (crm created booked)) demo_config
      (Inr (booking (JStr (''Jane'' @ CHR 0x09 # ''Doe'')) (JStr ''5550100'')
         (JStr ''jane@example.com'') (JStr ''2023-04-25T14:00:00''))))))) ''firstName''
     = Some (JStr (''Jane'' @ CHR 0x09 # ''Doe''))
   \<and> json_field (payload (hd (snd (book_appointment (python_env (crm created booked)) demo_config
      (Inr (booking (JStr (''Jane'' @ CHR 0x09 # ''Doe'')) (JStr ''5550100'')
         (JStr ''jane@example.com'') (JStr ''2023-04-25T14:00:00''))))))) ''lastName''
     = Some (JStr [])
   \<and> spec_first_name (''Jane'' @ CHR 0x09 # ''Doe'') = ''Jane''
   \<and> spec_last_name (''Jane'' @ CHR 0x09 # ''Doe'') = ''Doe''
   \<and> json_field (payload (hd (snd (book_appointment (python_env (crm created booked)) demo_config
      (Inr (booking (JStr ''Jane  Doe'') (JStr ''5550100'')
         (JStr ''jane@example.com'') (JStr ''2023-04-25T14:00:00''))))))) ''lastName''
     = Some (JStr '' Doe'')
   \<and> spec_last_name ''Jane  Doe'' = ''Doe''"
proof -
  have t: "split_space (''Jane'' @ CHR 0x09 # ''Doe'') = [''Jane'' @ CHR 0x09 # ''Doe'']"
    and d: "split_space ''Jane  Doe'' = [''Jane'', [], ''Doe'']"
    by simp_all
  note ct = demo_booked_calls [OF t, of "JStr ''5550100''" "JStr ''jane@example.com''"]
  note cd = demo_booked_calls [OF d, of "JStr ''5550100''" "JStr ''jane@example.com''"]
  have spec: "spec_first_name (''Jane'' @ CHR 0x09 # ''Doe'') = ''Jane''"
    "spec_last_name (''Jane'' @ CHR 0x09 # ''Doe'') = ''Doe''"
    "spec_last_name ''Jane  Doe'' = ''Doe''"
    by (simp_all add: spec_first_name_def spec_last_name_def whitespace_tokens_def
          is_whitespace_def)
  show ?thesis
    unfolding ct cd using spec by (simp add: contact_payload_def)
qed

section \<open>The contact id\<close>

text \<open>
  C4, as the code has it. After a contact answer with status 200 or 201 whose
  body parses to \<open>data\<close>: when line 172 yields a value that is true in a truth
  test, the appointment call follows with that value as \<^verbatim>\<open>contactId\<close>; when it
  yields a value that is not, the response is 500 with the message
  \<^verbatim>\<open>Failed to get contact ID\<close>; when it raises, the response is 500 with the text
  of the exception; in the last two cases the contact call is the only call.
  Line 172 yields the id by the two shapes whenever the body is an object
  whose top-level id is true in a truth test, or whose \<^verbatim>\<open>contact\<close> is absent or
  an object.
\<close>

theorem contact_id_extraction:
  assumes run: "book_appointment e cfg req = (r, calls)"
      and c: "c \<in> set calls" "url c = contact_url"
      and resp: "post e (url c) (payload c) (headers c) = Inr resp"
      and st: "status_code resp \<in> {200, 201}"
      and js: "resp_json resp = Inr data"
  shows "(case contact_id_of data of
            Inl x \<Rightarrow> r = JsonResponse 500 (JObj [(''error'', JStr (str_exn x))]) \<and> calls = [c]
          | Inr cid \<Rightarrow>
              if truthy cid
              then (\<exists>c2. calls = [c, c2] \<and> url c2 = calendar_url
                      \<and> json_field (payload c2) ''contactId'' = Some cid)
              else r = JsonResponse 500 (JObj [(''error'', JStr ''Failed to get contact ID'')])
                 \<and> calls = [c])
       \<and> (\<forall>kvs. data = JObj kvs
              \<and> (truthy (id_under kvs) \<or> map_of kvs ''contact'' = None
                  \<or> (\<exists>cs. map_of kvs ''contact'' = Some (JObj cs)))
              \<longrightarrow> contact_id_of data = Inr (two_shapes_id kvs))"
proof -
  obtain res where tr: "book_appointment_try e cfg req = (res, calls)"
    and r: "r = (case res of Inl x \<Rightarrow> JsonResponse 500 (JObj [(''error'', JStr (str_exn x))])
                 | Inr ok \<Rightarrow> ok)"
    using run by (auto simp: book_appointment_def split: prod.splits sum.splits)
  from c have "calls \<noteq> []" by auto
  from book_reaches_upsert [OF tr this] obtain name t body where
    up: "book_upsert e cfg name t body = (res, calls)"
    by blast
  from book_upsert_contact_call [OF up c]
  have ceq: "c = \<lparr>url = contact_url, payload = body, headers = contact_headers cfg\<rparr>" .
  with resp have "post e contact_url body (contact_headers cfg) = Inr resp"
    by simp
  from book_upsert_contact_id [OF up this st js] r ceq
  have "case contact_id_of data of
            Inl x \<Rightarrow> r = JsonResponse 500 (JObj [(''error'', JStr (str_exn x))]) \<and> calls = [c]
          | Inr cid \<Rightarrow>
              if truthy cid
              then (\<exists>c2. calls = [c, c2] \<and> url c2 = calendar_url
                      \<and> json_field (payload c2) ''contactId'' = Some cid)
              else r = JsonResponse 500 (JObj [(''error'', JStr ''Failed to get contact ID'')])
                 \<and> calls = [c]"
    by (auto simp: calendar_payload_def split: sum.splits)
  then show ?thesis
    using contact_id_of_shapes by blast
qed

theorem contact_id_extraction_witness:
  "contact_id_of (JObj [(''id'', JStr ''c123'')]) = Inr (JStr ''c123'')
   \<and> two_shapes_id [(''id'', JStr ''c123'')] = JStr ''c123''
   \<and> contact_id_of (JObj [(''contact'', JObj [(''id'', JStr ''c456'')])]) = Inr (JStr ''c456'')
   \<and> two_shapes_id [(''contact'', JObj [(''id'', JStr ''c456'')])] = JStr ''c456''
   \<and> map (\<lambda>c. json_field (payload c) ''contactId'')
        (snd (book_appointment (python_env (crm created booked)) demo_config
           (Inr (booking (JStr ''Jane Doe Smith'') (JStr ''5550100'') (JStr ''jane@example.com'')
              (JStr ''2023-04-25T14:00:00'')))))
     = [None, Some (JStr ''c456'')]
   \<and> book_appointment (python_env (crm (upstream 201 ''{}'' (Inr (JObj []))) booked)) demo_config
        (Inr (booking (JStr ''Jane Doe Smith'') (JStr ''5550100'') (JStr ''jane@example.com'')
           (JStr ''2023-04-25T14:00:00'')))
     = (JsonResponse 500 (JObj [(''error'', JStr ''Failed to get contact ID'')]),
        [\<lparr>url = contact_url,
          payload = contact_payload demo_config (JStr ''jane@example.com'') (JStr ''5550100'')
                      ''Jane'' [''Doe'', ''Smith''],
          headers = contact_headers demo_config\<rparr>])"
proof -
  let ?req = "Inr (booking (JStr ''Jane Doe Smith'') (JStr ''5550100'') (JStr ''jane@example.com'')
                (JStr ''2023-04-25T14:00:00''))"
  let ?c = "\<lparr>url = contact_url,
          payload = contact_payload demo_config (JStr ''jane@example.com'') (JStr ''5550100'')
                      ''Jane'' [''Doe'', ''Smith''],
          headers = contact_headers demo_config\<rparr>"
  let ?e = "python_env (crm (upstream 201 ''{}'' (Inr (JObj []))) booked)"
  have shapes: "contact_id_of (JObj [(''id'', JStr ''c123'')]) = Inr (JStr ''c123'')"
    "two_shapes_id [(''id'', JStr ''c123'')] = JStr ''c123''"
    "contact_id_of (JObj [(''contact'', JObj [(''id'', JStr ''c456'')])]) = Inr (JStr ''c456'')"
    "two_shapes_id [(''contact'', JObj [(''id'', JStr ''c456'')])] = JStr ''c456''"
    by (simp_all add: contact_id_of_def two_shapes_id_def id_under_def)
  have nested: "map (\<lambda>c. json_field (payload c) ''contactId'')
        (snd (book_appointment (python_env (crm created booked)) demo_config ?req))
     = [None, Some (JStr ''c456'')]"
    by (simp add: demo_booked)
  have calls: "snd (book_appointment ?e demo_config ?req) = [?c]"
    unfolding demo_booking by (simp add: crm_defs)
  have "book_appointment ?e demo_config ?req = (fst (book_appointment ?e demo_config ?req), [?c])"
    using calls by (metis prod.collapse)
  from contact_id_extraction [OF this, of ?c "upstream 201 ''{}'' (Inr (JObj []))" "JObj []"]
  have "fst (book_appointment ?e demo_config ?req)
          = JsonResponse 500 (JObj [(''error'', JStr ''Failed to get contact ID'')])"
    by (simp add: python_env_def crm_def upstream_def contact_id_of_def)
  with calls have "book_appointment ?e demo_config ?req
     = (JsonResponse 500 (JObj [(''error'', JStr ''Failed to get contact ID'')]), [?c])"
    by (metis prod.collapse)
  with shapes nested show ?thesis
    by simp
qed

text \<open>
  The claim C4 as stated (when neither shape yields an identifier the message
  is \<^verbatim>\<open>Failed to get contact ID\<close>) fails at the contact body
  \<^verbatim>\<open>{"contact": null}\<close>: \<^verbatim>\<open>get\<close> is called on \<^verbatim>\<open>None\<close>, and the response carries
  the message of that \<^verbatim>\<open>AttributeError\<close>.
\<close>

theorem null_contact_counterexample:
  "book_appointment
     (python_env (crm (upstream 200 ''{}'' (Inr (JObj [(''contact'', JNull)]))) booked))
     demo_config
     (Inr (booking (JStr ''Jane Doe Smith'') (JStr ''5550100'') (JStr ''jane@example.com'')
        (JStr ''2023-04-25T14:00:00'')))
   = (JsonResponse 500 (JObj
        [(''error'', JStr (quoted ''NoneType'' @ '' object has no attribute '' @ quoted ''get''))]),
      [\<lparr>url = contact_url,
        payload = contact_payload demo_config (JStr ''jane@example.com'') (JStr ''5550100'')
                    ''Jane'' [''Doe'', ''Smith''],
        headers = contact_headers demo_config\<rparr>])
   \<and> two_shapes_id [(''contact'', JNull)] = JNull"
  unfolding demo_booking
  by (simp add: crm_defs no_attribute_def two_shapes_id_def id_under_def)

section \<open>What an upstream error response carries\<close>

text \<open>
  C8, as the code has it. A speech provider answer with a status other than
  200 makes \<^verbatim>\<open>/voice\<close> return a response whose HTTP status is that upstream
  status itself, with \<^verbatim>\<open>details\<close> equal to the upstream body. A CRM answer with
  a status outside 200 to 299 makes \<^verbatim>\<open>/book\<close> return the HTTP status 500 with
  \<^verbatim>\<open>details\<close> equal to the upstream body; the body of that response has the two
  keys \<^verbatim>\<open>error\<close> and \<^verbatim>\<open>details\<close> and does not carry the upstream status.
\<close>

theorem upstream_error_responses:
  "(generate_voice e cfg req = (r, calls) \<and> c \<in> set calls
      \<and> post e (url c) (payload c) (headers c) = Inr resp \<and> status_code resp \<noteq> 200
    \<longrightarrow> r = JsonResponse (status_code resp) (JObj
            [(''error'', JStr ''Failed to generate voice''),
             (''details'', JStr (resp_text resp))]))
   \<and> (book_appointment e cfg req = (r, calls) \<and> c \<in> set calls
      \<and> post e (url c) (payload c) (headers c) = Inr resp
      \<and> \<not> (200 \<le> status_code resp \<and> status_code resp < 300)
    \<longrightarrow> r = JsonResponse 500 (JObj
            [(''error'', JStr (if url c = contact_url then ''Failed to create contact''
                               else ''Failed to book appointment'')),
             (''details'', JStr (resp_text resp))]))"
proof (intro conjI impI)
  assume "generate_voice e cfg req = (r, calls) \<and> c \<in> set calls
      \<and> post e (url c) (payload c) (headers c) = Inr resp \<and> status_code resp \<noteq> 200"
  then show "r = JsonResponse (status_code resp) (JObj
            [(''error'', JStr ''Failed to generate voice''),
             (''details'', JStr (resp_text resp))])"
    using voice_failed_call [of e cfg req r calls c resp] by simp
next
  assume a: "book_appointment e cfg req = (r, calls) \<and> c \<in> set calls
      \<and> post e (url c) (payload c) (headers c) = Inr resp
      \<and> \<not> (200 \<le> status_code resp \<and> status_code resp < 300)"
  then have "status_code resp \<notin> {200, 201}" by auto
  with a show "r = JsonResponse 500 (JObj
            [(''error'', JStr (if url c = contact_url then ''Failed to create contact''
                               else ''Failed to book appointment'')),
             (''details'', JStr (resp_text resp))])"
    using book_failed_call [of e cfg req r calls c resp] by simp
qed

theorem upstream_error_responses_witness:
  "fst (generate_voice
      (python_env (speech (upstream 401 ''unauthorized'' (Inl (UpstreamException ''not JSON'')))))
      demo_config (Inr (JObj [(''text'', JStr ''hello'')])))
     = JsonResponse 401 (JObj [(''error'', JStr ''Failed to generate voice''),
                               (''details'', JStr ''unauthorized'')])
   \<and> fst (book_appointment
      (python_env (crm created (upstream 503 ''unavailable'' (Inl (UpstreamException ''not JSON'')))))
      demo_config
      (Inr (booking (JStr ''Jane Doe Smith'') (JStr ''5550100'') (JStr ''jane@example.com'')
         (JStr ''2023-04-25T14:00:00''))))
     = JsonResponse 500 (JObj [(''error'', JStr ''Failed to book appointment''),
                               (''details'', JStr ''unavailable'')])"
proof -
  let ?down = "upstream 401 ''unauthorized'' (Inl (UpstreamException ''not JSON''))"
  let ?ve = "python_env (speech ?down)"
  let ?vreq = "Inr (JObj [(''text'', JStr ''hello'')])"
  let ?vc = "\<lparr>url = ''https://api.elevenlabs.io/v1/text-to-speech/voice-1'',
        payload = JObj [(''text'', JStr ''hello''), (''model_id'', JStr ''eleven_monolingual_v1''),
                        (''voice_settings'', JObj [(''stability'', JFloat 0.5),
                                                   (''similarity_boost'', JFloat 0.5)])],
        headers = [(''Accept'', ''audio/mpeg''), (''Content-Type'', ''application/json''),
                   (''xi-api-key'', ''xi-key'')]\<rparr>"
  let ?busy = "upstream 503 ''unavailable'' (Inl (UpstreamException ''not JSON''))"
  let ?be = "python_env (crm created ?busy)"
  let ?breq = "Inr (booking (JStr ''Jane Doe Smith'') (JStr ''5550100'') (JStr ''jane@example.com'')
         (JStr ''2023-04-25T14:00:00''))"
  let ?bc = "\<lparr>url = calendar_url,
        payload = calendar_payload demo_config ''Jane Doe Smith''
                    \<lparr>year = 2023, month = 4, day = 25, hour = 14, minute = 0, second = 0,
                     microsecond = 0, tzinfo = Some (Zone ''America/Chicago'' (- 18000))\<rparr>
                    (JStr ''c456''),
        headers = contact_headers demo_config\<rparr>"
  have vcalls: "snd (generate_voice ?ve demo_config ?vreq) = [?vc]"
    by (simp add: demo_voice)
  have v: "generate_voice ?ve demo_config ?vreq = (fst (generate_voice ?ve demo_config ?vreq), [?vc])"
    using vcalls by (metis prod.collapse)
  have voice: "fst (generate_voice ?ve demo_config ?vreq)
     = JsonResponse 401 (JObj [(''error'', JStr ''Failed to generate voice''),
                               (''details'', JStr ''unauthorized'')])"
    using upstream_error_responses [of ?ve demo_config ?vreq
            "fst (generate_voice ?ve demo_config ?vreq)" "[?vc]" ?vc ?down] v
    by (simp add: python_env_def speech_def upstream_def)
  have bcalls: "snd (book_appointment ?be demo_config ?breq)
                  = [\<lparr>url = contact_url,
                      payload = contact_payload demo_config (JStr ''jane@example.com'')
                                  (JStr ''5550100'') ''Jane'' [''Doe'', ''Smith''],
                      headers = contact_headers demo_config\<rparr>, ?bc]"
    unfolding demo_booking
    by (simp add: crm_defs created_def urls_differ [symmetric])
  have b: "book_appointment ?be demo_config ?breq
             = (fst (book_appointment ?be demo_config ?breq),
                [\<lparr>url = contact_url,
                      payload = contact_payload demo_config (JStr ''jane@example.com'')
                                  (JStr ''5550100'') ''Jane'' [''Doe'', ''Smith''],
                      headers = contact_headers demo_config\<rparr>, ?bc])"
    using bcalls by (metis prod.collapse)
  have book: "fst (book_appointment ?be demo_config ?breq)
     = JsonResponse 500 (JObj [(''error'', JStr ''Failed to book appointment''),
                               (''details'', JStr ''unavailable'')])"
    using upstream_error_responses [of ?be demo_config ?breq
            "fst (book_appointment ?be demo_config ?breq)"
            "[\<lparr>url = contact_url,
                      payload = contact_payload demo_config (JStr ''jane@example.com'')
                                  (JStr ''5550100'') ''Jane'' [''Doe'', ''Smith''],
                      headers = contact_headers demo_config\<rparr>, ?bc]" ?bc ?busy] b
    by (simp add: python_env_def crm_def upstream_def urls_differ [symmetric])
  from voice book show ?thesis by simp
qed

text \<open>
  The claim C8 as stated (the response to an upstream error is of the 500
  class) fails for \<^verbatim>\<open>/voice\<close> at the upstream status 401: the response has the
  status 401.
\<close>

theorem voice_status_counterexample:
  "http_status (fst (generate_voice
      (python_env (speech (upstream 401 ''unauthorized'' (Inl (UpstreamException ''not JSON'')))))
      demo_config (Inr (JObj [(''text'', JStr ''hello'')])))) = 401
   \<and> \<not> 500 \<le> http_status (fst (generate_voice
      (python_env (speech (upstream 401 ''unauthorized'' (Inl (UpstreamException ''not JSON'')))))
      demo_config (Inr (JObj [(''text'', JStr ''hello'')]))))"
  by (simp add: demo_voice)

section \<open>A body that is not a JSON object\<close>

text \<open>
  C10, as the code has it. When \<^verbatim>\<open>get_json\<close> raises, and when the body is
  \<^verbatim>\<open>null\<close>, a boolean or a number (on which the membership test of line 127
  raises a \<^verbatim>\<open>TypeError\<close>), the response is the 500 of the outer \<^verbatim>\<open>except\<close> with
  the text of the exception. On a JSON array or string the membership test does
  not raise (it is element membership, or the substring test): the response is
  the 400 that names the first field not found, and when all four are found
  it is the 500 of the \<^verbatim>\<open>TypeError\<close> that \<^verbatim>\<open>data['name']\<close> raises at line 131. No
  outbound call is made in any of these cases.
\<close>

theorem non_object_body:
  "book_appointment e cfg (Inl x) = (JsonResponse 500 (JObj [(''error'', JStr (str_exn x))]), [])
   \<and> (v = JNull \<or> (\<exists>b. v = JBool b) \<or> (\<exists>n. v = JNum n) \<or> (\<exists>q. v = JFloat q)
        \<longrightarrow> book_appointment e cfg (Inr v)
            = (JsonResponse 500 (JObj
                 [(''error'', JStr (''argument of type '' @ quoted (type_name v)
                                    @ '' is not iterable''))]), []))
   \<and> ((\<exists>xs. v = JArr xs) \<or> (\<exists>s. v = JStr s)
        \<longrightarrow> book_appointment e cfg (Inr v)
            = (case filter (\<lambda>f. py_contains f v = Inr False) required_fields of
                 g # rest \<Rightarrow>
                   JsonResponse 400 (JObj [(''error'', JStr (''Missing '' @ quoted g @ '' field''))])
               | [] \<Rightarrow>
                   JsonResponse 500 (JObj
                     [(''error'', JStr (case py_getitem v ''name'' of
                                          Inl z \<Rightarrow> str_exn z | Inr w \<Rightarrow> []))]), []))"
proof (intro conjI impI)
  show "book_appointment e cfg (Inl x) = (JsonResponse 500 (JObj [(''error'', JStr (str_exn x))]), [])"
    by (simp add: book_appointment_def book_appointment_try_def)
next
  assume "v = JNull \<or> (\<exists>b. v = JBool b) \<or> (\<exists>n. v = JNum n) \<or> (\<exists>q. v = JFloat q)"
  then show "book_appointment e cfg (Inr v)
            = (JsonResponse 500 (JObj
                 [(''error'', JStr (''argument of type '' @ quoted (type_name v)
                                    @ '' is not iterable''))]), [])"
    by (auto simp: book_appointment_def book_appointment_try_def required_fields_def)
next
  assume a: "(\<exists>xs. v = JArr xs) \<or> (\<exists>s. v = JStr s)"
  then have total: "\<And>k. \<exists>b. py_contains k v = Inr b" by auto
  from a obtain z where z: "py_getitem v ''name'' = Inl z" by auto
  show "book_appointment e cfg (Inr v)
            = (case filter (\<lambda>f. py_contains f v = Inr False) required_fields of
                 g # rest \<Rightarrow>
                   JsonResponse 400 (JObj [(''error'', JStr (''Missing '' @ quoted g @ '' field''))])
               | [] \<Rightarrow>
                   JsonResponse 500 (JObj
                     [(''error'', JStr (case py_getitem v ''name'' of
                                          Inl z \<Rightarrow> str_exn z | Inr w \<Rightarrow> []))]), [])"
    by (simp add: book_appointment_def book_appointment_try_def first_missing_container [OF total] z
             split: list.splits)
qed

theorem non_object_body_witness:
  "book_appointment (python_env (crm created booked)) demo_config (Inr JNull)
     = (JsonResponse 500 (JObj
          [(''error'', JStr ''argument of type 'NoneType' is not iterable'')]), [])
   \<and> book_appointment (python_env (crm created booked)) demo_config
        (Inr (JArr [JStr ''name'', JStr ''phone'']))
     = (JsonResponse 400 (JObj [(''error'', JStr ''Missing 'email' field'')]), [])
   \<and> book_appointment (python_env (crm created booked)) demo_config
        (Inr (JStr ''name phone email selectedSlot''))
     = (JsonResponse 500 (JObj
          [(''error'', JStr (''string indices must be integers, not '' @ quoted ''str''))]), [])"
proof -
  let ?e = "python_env (crm created booked)"
  note t = non_object_body [of ?e demo_config]
  have sub: "sublist ''name'' ''name phone email selectedSlot''"
    "sublist ''phone'' ''name phone email selectedSlot''"
    "sublist ''email'' ''name phone email selectedSlot''"
    "sublist ''selectedSlot'' ''name phone email selectedSlot''"
    by (simp_all add: sublist_Cons_right)
  have "book_appointment ?e demo_config (Inr JNull)
     = (JsonResponse 500 (JObj
          [(''error'', JStr ''argument of type 'NoneType' is not iterable'')]), [])"
    using t [of _ JNull] by (simp add: quoted_def)
  moreover have "book_appointment ?e demo_config (Inr (JArr [JStr ''name'', JStr ''phone'']))
     = (JsonResponse 400 (JObj [(''error'', JStr ''Missing 'email' field'')]), [])"
    using t [of _ "JArr [JStr ''name'', JStr ''phone'']"]
    by (simp add: quoted_def required_fields_def)
  moreover have "book_appointment ?e demo_config (Inr (JStr ''name phone email selectedSlot''))
     = (JsonResponse 500 (JObj
          [(''error'', JStr (''string indices must be integers, not '' @ quoted ''str''))]), [])"
    using t [of _ "JStr ''name phone email selectedSlot''"] sub
    by (simp add: required_fields_def)
  ultimately show ?thesis by simp
qed

text \<open>
  The claim C10 as stated (a body that is not a JSON object never gets the 400
  of a missing field) fails at the body \<^verbatim>\<open>[]\<close>.
\<close>

theorem array_body_counterexample:
  "book_appointment (python_env (crm created booked)) demo_config (Inr (JArr []))
     = (JsonResponse 400 (JObj [(''error'', JStr ''Missing 'name' field'')]), [])"
  by (simp add: book_appointment_def book_appointment_try_def required_fields_def quoted_def)

end
